theory Spec2Isabelle
  imports Main "HOL-Library.AList"
begin

section \<open>The entity REST client (src/api/worker/rest/EntityRestClient.js)\<close>

text \<open>
  The client is a class whose methods are asynchronous: every method awaits its
  collaborators (type model registry, authentication header provider, transport,
  crypto facade, instance mapper) one after the other. The embedding keeps that order.
  A method becomes a function from its arguments to a pair: the outcome (\<open>Inl\<close> an
  error that the method raises, \<open>Inr\<close> the value that it returns) and the list of
  collaborator calls that it made, in the order in which it made them. The collaborators
  themselves are not part of the file; they are the fields of the record \<open>env\<close>, and
  each answers as a function of its arguments.
\<close>

subsection \<open>Data\<close>

type_synonym Id = string

text \<open>
  \<open>Params\<close> is a JavaScript object with string keys and string values. An association
  list keeps the insertion order of the keys, as the object does.
\<close>

type_synonym Params = "(string \<times> string) list"

text \<open>A \<open>TypeRef\<close> has the properties \<open>app\<close> and \<open>type\<close>.\<close>

record TypeRef =
  app :: string
  type :: string

text \<open>
  The kind of a type model (\<open>Type\<close> of EntityConstants). The code names
  \<open>Type.ListElement\<close> only; the specification names \<open>Element\<close> and
  \<open>ListElement\<close>; every further kind is \<open>OtherType\<close>.
\<close>

datatype Type = Element | ListElement | OtherType string

text \<open>
  Of a \<open>TypeModel\<close> the client reads \<open>type\<close> (\<open>model_type\<close> here) and
  \<open>version\<close>.
\<close>

record TypeModel =
  model_type :: Type
  version :: string

text \<open>
  JavaScript values as \<open>JSON.parse\<close> produces them, and \<open>undefined\<close>, which a missing
  property and a caught rejection produce.
\<close>

datatype json =
    JUndefined
  | JNull
  | JBool bool
  | JNumber int
  | JString string
  | JArray "json list"
  | JObject "(string \<times> json) list"

text \<open>
  The identity of an instance (\<open>_id\<close>): a string for element types, a pair of list id
  and element id for list element types.
\<close>

datatype IdOrTuple = ElementId Id | IdTuple Id Id

text \<open>
  A decrypted instance. The client reads \<open>_type\<close> and \<open>_id\<close> (\<open>inst_type\<close> and
  \<open>inst_id\<close> here); the remaining properties are \<open>inst_values\<close>.
\<close>

record entity =
  inst_type :: TypeRef
  inst_id :: "IdOrTuple option"
  inst_values :: json

type_synonym Aes128Key = "nat list"

datatype HttpMethod = GET | POST | PUT | DELETE

datatype MediaType = Json | Binary | Text

text \<open>The arguments of one call of \<open>RestClient.request\<close>.\<close>

record rest_request =
  req_path :: string
  req_method :: HttpMethod
  req_queryParams :: Params
  req_headers :: Params
  req_body :: "string option"
  req_responseType :: "MediaType option"

text \<open>
  What a method can raise: a plain \<open>Error\<close> (the usage errors of the client), the
  error classes the client names, and any other class, with its name.
\<close>

datatype rest_error =
    Error string
  | NotAuthenticatedError string
  | PayloadTooLargeError string
  | SessionKeyNotFoundError string
  | SetupMultipleError string "rest_error list" "entity list"
  | OtherError string string

text \<open>One constructor for each collaborator call, with the arguments of the call.\<close>

datatype event =
    ResolveTypeReference TypeRef
  | VerifyType TypeModel
  | AuthHeadersProvider
  | Request rest_request
  | ApplyMigrations TypeRef json
  | ResolveSessionKey TypeModel "json + entity"
  | DecryptAndMapToInstance TypeModel json "Aes128Key option"
  | ApplyMigrationsForInstance entity
  | SetNewOwnerEncSessionKey TypeModel entity
  | EncryptAndMapToLiteral TypeModel entity "Aes128Key option"
  | ConsoleLog string rest_error

text \<open>
  The collaborators and constants that the client imports and that are not part of the
  files: \<open>resolveTypeReference\<close> and \<open>_verifyType\<close> (\<open>verifyType\<close> here) of
  EntityFunctions, the authentication header provider, the transport, the crypto facade,
  the instance mapper, the two chunk limits of EntityUtils and the type reference of the
  push identifier. \<open>resolveSessionKey\<close> is called with a wire instance by the loading
  methods and with a decrypted instance by \<open>update\<close>, hence the sum. \<open>JSON.parse\<close> and
  \<open>JSON.stringify\<close> are the built-in functions.
\<close>

record env =
  resolveTypeReference :: "TypeRef \<Rightarrow> rest_error + TypeModel"
  verifyType :: "TypeModel \<Rightarrow> rest_error + unit"
  authHeadersProvider :: Params
  restClient_request :: "rest_request \<Rightarrow> rest_error + string"
  JSON_parse :: "string \<Rightarrow> rest_error + json"
  JSON_stringify :: "json \<Rightarrow> string"
  applyMigrations :: "TypeRef \<Rightarrow> json \<Rightarrow> rest_error + json"
  resolveSessionKey :: "TypeModel \<Rightarrow> json + entity \<Rightarrow> rest_error + Aes128Key option"
  decryptAndMapToInstance :: "TypeModel \<Rightarrow> json \<Rightarrow> Aes128Key option \<Rightarrow> rest_error + entity"
  applyMigrationsForInstance :: "entity \<Rightarrow> rest_error + entity"
  setNewOwnerEncSessionKey :: "TypeModel \<Rightarrow> entity \<Rightarrow> rest_error + Aes128Key option"
  encryptAndMapToLiteral :: "TypeModel \<Rightarrow> entity \<Rightarrow> Aes128Key option \<Rightarrow> rest_error + json"
  LOAD_MULTIPLE_LIMIT :: nat
  POST_MULTIPLE_LIMIT :: nat
  PushIdentifierTypeRef :: TypeRef

subsection \<open>Outcomes with a record of the calls\<close>

type_synonym 'a comp = "(rest_error + 'a) \<times> event list"

definition returnC :: "'a \<Rightarrow> 'a comp" where
  "returnC a = (Inr a, [])"

definition throwC :: "rest_error \<Rightarrow> 'a comp" where
  "throwC e = (Inl e, [])"

text \<open>A collaborator call: its answer, and the call on record.\<close>

definition call :: "event \<Rightarrow> rest_error + 'a \<Rightarrow> 'a comp" where
  "call ev r = (r, [ev])"

text \<open>\<open>await m\<close>, then \<open>f\<close> on its value; a rejection of \<open>m\<close> ends the method.\<close>

definition bindC :: "'a comp \<Rightarrow> ('a \<Rightarrow> 'b comp) \<Rightarrow> 'b comp" where
  "bindC m f =
     (case m of
        (Inl e, t) \<Rightarrow> (Inl e, t)
      | (Inr a, t) \<Rightarrow> (case f a of (r, t') \<Rightarrow> (r, t @ t')))"

text \<open>\<open>try m catch (e) h e\<close>, and \<open>m.catch(h)\<close>.\<close>

definition catchC :: "'a comp \<Rightarrow> (rest_error \<Rightarrow> 'a comp) \<Rightarrow> 'a comp" where
  "catchC m h =
     (case m of
        (Inr a, t) \<Rightarrow> (Inr a, t)
      | (Inl e, t) \<Rightarrow> (case h e of (r, t') \<Rightarrow> (r, t @ t')))"

subsection \<open>JavaScript built-ins that the client uses\<close>

text \<open>\<open>String.prototype.toLowerCase\<close>, on the ASCII letters.\<close>

definition toLowerCase_char :: "char \<Rightarrow> char" where
  "toLowerCase_char c =
     (case map_of (zip ''ABCDEFGHIJKLMNOPQRSTUVWXYZ'' ''abcdefghijklmnopqrstuvwxyz'') c of
        None \<Rightarrow> c
      | Some l \<Rightarrow> l)"

definition toLowerCase :: "string \<Rightarrow> string" where
  "toLowerCase s = map toLowerCase_char s"

text \<open>The truth value of an optional id in \<open>if (listId)\<close>: null and the empty string are false.\<close>

definition truthyId :: "Id option \<Rightarrow> bool" where
  "truthyId i = (case i of None \<Rightarrow> False | Some s \<Rightarrow> s \<noteq> [])"

text \<open>The truth value of \<open>instance._id\<close> in \<open>if (!instance._id)\<close>: an array is true.\<close>

definition truthyIdOrTuple :: "IdOrTuple option \<Rightarrow> bool" where
  "truthyIdOrTuple i =
     (case i of None \<Rightarrow> False | Some (ElementId s) \<Rightarrow> s \<noteq> [] | Some (IdTuple l e) \<Rightarrow> True)"

text \<open>\<open>Boolean(v)\<close>, the predicate of \<open>returnedIds.filter(Boolean)\<close>.\<close>

fun Boolean :: "json \<Rightarrow> bool" where
  "Boolean JUndefined = False"
| "Boolean JNull = False"
| "Boolean (JBool b) = b"
| "Boolean (JNumber n) = (n \<noteq> 0)"
| "Boolean (JString s) = (s \<noteq> [])"
| "Boolean (JArray xs) = True"
| "Boolean (JObject kvs) = True"

text \<open>
  \<open>Object.assign(target, source)\<close>: every property of the source is written to the
  target, a key of the target keeps its place, a new key goes to the end. A null source
  is skipped.
\<close>

definition Object_assign :: "Params \<Rightarrow> Params option \<Rightarrow> Params" where
  "Object_assign target source =
     (case source of
        None \<Rightarrow> target
      | Some src \<Rightarrow> fold (\<lambda>(k, v) acc. AList.update k v acc) src target)"

text \<open>
  \<open>v.generatedId\<close>: a TypeError on null and undefined, the property of an object,
  undefined where the property is missing and on every other value.
\<close>

fun getProperty :: "json \<Rightarrow> string \<Rightarrow> rest_error + json" where
  "getProperty JUndefined k = Inl (OtherError ''TypeError'' ''cannot read properties of undefined'')"
| "getProperty JNull k = Inl (OtherError ''TypeError'' ''cannot read properties of null'')"
| "getProperty (JObject kvs) k = (case map_of kvs k of None \<Rightarrow> Inr JUndefined | Some v \<Rightarrow> Inr v)"
| "getProperty v k = Inr JUndefined"

text \<open>
  The elements of a value on which \<open>Array.prototype.map\<close> is called; a TypeError when it
  is no array.
\<close>

fun arrayOf :: "json \<Rightarrow> rest_error + json list" where
  "arrayOf (JArray xs) = Inr xs"
| "arrayOf v = Inl (OtherError ''TypeError'' ''not an array'')"

text \<open>
  The elements of a value that is iterated, as \<open>promiseMap\<close> iterates its first
  argument: the elements of an array, the characters of a string; a TypeError on a value
  that is not iterable.
\<close>

fun iterableOf :: "json \<Rightarrow> rest_error + json list" where
  "iterableOf (JArray xs) = Inr xs"
| "iterableOf (JString s) = Inr (map (\<lambda>c. JString [c]) s)"
| "iterableOf v = Inl (OtherError ''TypeError'' ''not iterable'')"

text \<open>\<open>Array.prototype.map\<close> with a callback that can throw: the first throw ends it.\<close>

fun mapE :: "('a \<Rightarrow> rest_error + 'b) \<Rightarrow> 'a list \<Rightarrow> rest_error + 'b list" where
  "mapE f [] = Inr []"
| "mapE f (x # xs) =
     (case f x of
        Inl e \<Rightarrow> Inl e
      | Inr y \<Rightarrow> (case mapE f xs of Inl e \<Rightarrow> Inl e | Inr ys \<Rightarrow> Inr (y # ys)))"

text \<open>\<open>Array.prototype.join\<close> on strings.\<close>

fun join :: "string \<Rightarrow> string list \<Rightarrow> string" where
  "join sep [] = []"
| "join sep [x] = x"
| "join sep (x # y # ys) = x @ sep @ join sep (y # ys)"

text \<open>\<open>String(n)\<close> for a natural number, an integer and a boolean.\<close>

function String_nat :: "nat \<Rightarrow> string" where
  "String_nat n =
     (if n < 10 then [''0123456789'' ! n]
      else String_nat (n div 10) @ [''0123456789'' ! (n mod 10)])"
  by pat_completeness auto
termination
  by (relation "measure id") auto

declare String_nat.simps [simp del]

definition String_int :: "int \<Rightarrow> string" where
  "String_int i = (if i < 0 then CHR ''-'' # String_nat (nat (- i)) else String_nat (nat i))"

definition String_bool :: "bool \<Rightarrow> string" where
  "String_bool b = (if b then ''true'' else ''false'')"

subsection \<open>Helpers of the repository that the client imports\<close>

text \<open>
  Modelled from the spec: \<open>splitInChunks\<close> of the utilities package, whose source is
  not part of the files. The specification has it split a list into fixed-size chunks,
  in input order. The helper cuts a chunk before it tests for the end of the list (a
  \<open>do ... while\<close> loop), so an empty list gives one empty chunk; a chunk size below one
  gives no chunk.
\<close>

function splitInChunks :: "nat \<Rightarrow> 'a list \<Rightarrow> 'a list list" where
  "splitInChunks chunkSize array =
     (if chunkSize < 1 then []
      else take chunkSize array
             # (if chunkSize < length array
                then splitInChunks chunkSize (drop chunkSize array)
                else []))"
  by pat_completeness auto
termination
  by (relation "measure (\<lambda>(chunkSize, array). length array)") auto

declare splitInChunks.simps [simp del]

text \<open>
  Modelled from the spec: \<open>flat\<close> of the utilities package, the concatenation of the
  chunks, chunk order preserved.
\<close>

definition flat :: "'a list list \<Rightarrow> 'a list" where
  "flat xss = concat xss"

text \<open>
  Modelled from the spec: \<open>promiseMap\<close> of the utilities package. The mapper runs on
  the elements of its first argument in order, one after the other (the bounded concurrency of the
  specification is not modelled); the results keep the order of the input; the first
  rejection rejects the whole.
\<close>

fun promiseMap :: "'a list \<Rightarrow> ('a \<Rightarrow> 'b comp) \<Rightarrow> 'b list comp" where
  "promiseMap [] mapper = returnC []"
| "promiseMap (x # xs) mapper =
     bindC (mapper x) (\<lambda>y. bindC (promiseMap xs mapper) (\<lambda>ys. returnC (y # ys)))"

text \<open>
  \<open>promiseMap\<close> with a mapper that pushes to arrays of the enclosing method: the
  arrays are passed from one run of the mapper to the next.
\<close>

fun promiseMapAcc :: "'a list \<Rightarrow> ('a \<Rightarrow> 's \<Rightarrow> ('b \<times> 's) comp) \<Rightarrow> 's \<Rightarrow> ('b list \<times> 's) comp" where
  "promiseMapAcc [] mapper s = returnC ([], s)"
| "promiseMapAcc (x # xs) mapper s =
     bindC (mapper x s) (\<lambda>(y, s').
       bindC (promiseMapAcc xs mapper s') (\<lambda>(ys, s''). returnC (y # ys, s'')))"

text \<open>
  Modelled from the spec: \<open>ofClass\<close> of the utilities package: the handler runs on an
  error of the class, every other error propagates.
\<close>

definition ofClass :: "(rest_error \<Rightarrow> bool) \<Rightarrow> (rest_error \<Rightarrow> 'a comp) \<Rightarrow> rest_error \<Rightarrow> 'a comp" where
  "ofClass cls handler e = (if cls e then handler e else throwC e)"

fun isSessionKeyNotFoundError :: "rest_error \<Rightarrow> bool" where
  "isSessionKeyNotFoundError (SessionKeyNotFoundError m) = True"
| "isSessionKeyNotFoundError e = False"

fun isPayloadTooLargeError :: "rest_error \<Rightarrow> bool" where
  "isPayloadTooLargeError (PayloadTooLargeError m) = True"
| "isPayloadTooLargeError e = False"

text \<open>
  Modelled from the spec: \<open>expandId\<close> of EntityRestCache: an id is split into list id
  and element id; a bare element id has no list id.
\<close>

fun expandId :: "IdOrTuple \<Rightarrow> Id option \<times> Id" where
  "expandId (ElementId elementId) = (None, elementId)"
| "expandId (IdTuple listId elementId) = (Some listId, elementId)"

text \<open>Modelled from the spec: \<open>isSameTypeRef\<close>: the same application and type name.\<close>

definition isSameTypeRef :: "TypeRef \<Rightarrow> TypeRef \<Rightarrow> bool" where
  "isSameTypeRef a b = (app a = app b \<and> type a = type b)"

subsection \<open>The client\<close>

definition typeRefToPath :: "TypeRef \<Rightarrow> string" where
  "typeRefToPath typeRef = ''/rest/'' @ app typeRef @ ''/'' @ toLowerCase (type typeRef)"

text \<open>\<open>this._restClient.request(path, method, queryParams, headers, body, responseType)\<close>.\<close>

definition request ::
  "env \<Rightarrow> string \<Rightarrow> HttpMethod \<Rightarrow> Params \<Rightarrow> Params \<Rightarrow> string option \<Rightarrow> MediaType option \<Rightarrow> string comp"
where
  "request env p m q h b r =
     (let rq = \<lparr>req_path = p, req_method = m, req_queryParams = q, req_headers = h,
                 req_body = b, req_responseType = r\<rparr>
      in call (Request rq) (restClient_request env rq))"

text \<open>A built-in function that can throw: no collaborator is called.\<close>

definition liftE :: "rest_error + 'a \<Rightarrow> 'a comp" where
  "liftE r = (r, [])"

definition consoleLog :: "string \<Rightarrow> rest_error \<Rightarrow> unit comp" where
  "consoleLog msg e = call (ConsoleLog msg e) (Inr ())"

text \<open>What \<open>_validateAndPrepareRestRequest\<close> returns.\<close>

record prepared =
  path :: string
  queryParams :: Params
  headers :: Params
  typeModel :: TypeModel

definition validateAndPrepareRestRequest ::
  "env \<Rightarrow> TypeRef \<Rightarrow> Id option \<Rightarrow> Id option \<Rightarrow> Params option \<Rightarrow> Params option \<Rightarrow> prepared comp"
where
  "validateAndPrepareRestRequest env typeRef listId elementId queryParameters extraHeaders =
     bindC (call (ResolveTypeReference typeRef) (resolveTypeReference env typeRef)) (\<lambda>tm.
     bindC (call (VerifyType tm) (verifyType env tm)) (\<lambda>_.
       let path0 = typeRefToPath typeRef;
           path1 = (if truthyId listId then path0 @ ''/'' @ the listId else path0);
           path2 = (if truthyId elementId then path1 @ ''/'' @ the elementId else path1);
           qp = (case queryParameters of None \<Rightarrow> [] | Some q \<Rightarrow> q)
       in
       bindC (call AuthHeadersProvider (Inr (authHeadersProvider env))) (\<lambda>auth.
         let hs = Object_assign (Object_assign [] (Some auth)) extraHeaders in
         if length (map fst hs) = 0
         then throwC (NotAuthenticatedError ''user must be authenticated for entity requests'')
         else returnC \<lparr>path = path2, queryParams = qp,
                        headers = AList.update ''v'' (version tm) hs, typeModel = tm\<rparr>)))"

text \<open>
  The session key of a wire instance or of an instance, \<open>SessionKeyNotFoundError\<close>
  caught: the error is logged and the key is null.
\<close>

definition resolveSessionKeyOrNull :: "env \<Rightarrow> TypeModel \<Rightarrow> json \<Rightarrow> Aes128Key option comp" where
  "resolveSessionKeyOrNull env tm instance =
     catchC (call (ResolveSessionKey tm (Inl instance)) (resolveSessionKey env tm (Inl instance)))
       (ofClass isSessionKeyNotFoundError (\<lambda>e.
          bindC (consoleLog ''could not resolve session key'' e) (\<lambda>_. returnC None)))"

definition load ::
  "env \<Rightarrow> TypeRef \<Rightarrow> IdOrTuple \<Rightarrow> Params option \<Rightarrow> Params option \<Rightarrow> entity comp"
where
  "load env typeRef id' queryParameters extraHeaders =
     (case expandId id' of (listId, elementId) \<Rightarrow>
     bindC (validateAndPrepareRestRequest env typeRef listId (Some elementId) queryParameters extraHeaders) (\<lambda>p.
     bindC (request env (path p) GET (queryParams p) (headers p) None (Some Json)) (\<lambda>json.
     bindC (liftE (JSON_parse env json)) (\<lambda>entity.
     bindC (call (ApplyMigrations typeRef entity) (applyMigrations env typeRef entity)) (\<lambda>migratedEntity.
     bindC (resolveSessionKeyOrNull env (typeModel p) migratedEntity) (\<lambda>sessionKey.
     bindC (call (DecryptAndMapToInstance (typeModel p) migratedEntity sessionKey)
              (decryptAndMapToInstance env (typeModel p) migratedEntity sessionKey)) (\<lambda>instance.
     call (ApplyMigrationsForInstance instance) (applyMigrationsForInstance env instance))))))))"

text \<open>
  The pipeline of \<open>_handleLoadMultipleResult\<close> for one loaded instance: session key,
  decryption, migrations of the instance.
\<close>

definition decryptLoaded :: "env \<Rightarrow> TypeModel \<Rightarrow> json \<Rightarrow> entity comp" where
  "decryptLoaded env model instance =
     bindC (resolveSessionKeyOrNull env model instance) (\<lambda>sk.
     bindC (call (DecryptAndMapToInstance model instance sk)
              (decryptAndMapToInstance env model instance sk)) (\<lambda>decryptedInstance.
     call (ApplyMigrationsForInstance decryptedInstance)
       (applyMigrationsForInstance env decryptedInstance)))"

text \<open>
  \<open>_handleLoadMultipleResult\<close>. The first \<open>promiseMap\<close> runs for the push identifier
  type only and its result is dropped, as in the code.
\<close>

definition handleLoadMultipleResult :: "env \<Rightarrow> TypeRef \<Rightarrow> json \<Rightarrow> entity list comp" where
  "handleLoadMultipleResult env typeRef loadedEntities =
     bindC (call (ResolveTypeReference typeRef) (resolveTypeReference env typeRef)) (\<lambda>model.
     bindC (liftE (iterableOf loadedEntities)) (\<lambda>instances.
     bindC (if isSameTypeRef typeRef (PushIdentifierTypeRef env)
            then bindC (promiseMap instances (\<lambda>instance.
                   call (ApplyMigrations typeRef instance) (applyMigrations env typeRef instance)))
                   (\<lambda>_. returnC ())
            else returnC ()) (\<lambda>_.
     promiseMap instances (decryptLoaded env model))))"

definition loadRange ::
  "env \<Rightarrow> TypeRef \<Rightarrow> Id \<Rightarrow> Id \<Rightarrow> int \<Rightarrow> bool \<Rightarrow> entity list comp"
where
  "loadRange env typeRef listId start count reverse =
     (let rangeRequestParams =
            [(''start'', start), (''count'', String_int count), (''reverse'', String_bool reverse)]
      in
      bindC (validateAndPrepareRestRequest env typeRef (Some listId) None (Some rangeRequestParams) None) (\<lambda>p.
      bindC (if model_type (typeModel p) \<noteq> ListElement
             then throwC (Error ''only ListElement types are permitted'')
             else returnC ()) (\<lambda>_.
      bindC (request env (path p) GET (queryParams p) (headers p) None (Some Json)) (\<lambda>json.
      bindC (liftE (JSON_parse env json)) (\<lambda>parsed.
      handleLoadMultipleResult env typeRef parsed)))))"

text \<open>The mapper of \<open>loadMultiple\<close>: the request for one chunk of ids and its decoding.\<close>

definition loadMultiple_chunk :: "env \<Rightarrow> TypeRef \<Rightarrow> string \<Rightarrow> Params \<Rightarrow> Id list \<Rightarrow> entity list comp" where
  "loadMultiple_chunk env typeRef pth hdrs idChunk =
     (let qp = [(''ids'', join '','' idChunk)] in
      bindC (request env pth GET qp hdrs None (Some Json)) (\<lambda>json.
      bindC (liftE (JSON_parse env json)) (\<lambda>parsed.
      handleLoadMultipleResult env typeRef parsed)))"

definition loadMultiple :: "env \<Rightarrow> TypeRef \<Rightarrow> Id option \<Rightarrow> Id list \<Rightarrow> entity list comp" where
  "loadMultiple env typeRef listId elementIds =
     bindC (validateAndPrepareRestRequest env typeRef listId None None None) (\<lambda>p.
       let idChunks = splitInChunks (LOAD_MULTIPLE_LIMIT env) elementIds in
       bindC (promiseMap idChunks (loadMultiple_chunk env typeRef (path p) (headers p)))
         (\<lambda>loadedChunks. returnC (flat loadedChunks)))"

text \<open>The pairing of kind and list id that \<open>setup\<close> and \<open>setupMultiple\<close> check.\<close>

definition checkListId :: "TypeModel \<Rightarrow> Id option \<Rightarrow> unit comp" where
  "checkListId tm listId =
     (if model_type tm = ListElement
      then (if \<not> truthyId listId then throwC (Error ''List id must be defined for LETs'')
            else returnC ())
      else (if truthyId listId then throwC (Error ''List id must not be defined for ETs'')
            else returnC ()))"

text \<open>A new session key for an instance, and the instance encrypted with it.\<close>

definition encryptNew :: "env \<Rightarrow> TypeModel \<Rightarrow> entity \<Rightarrow> json comp" where
  "encryptNew env tm instance =
     bindC (call (SetNewOwnerEncSessionKey tm instance) (setNewOwnerEncSessionKey env tm instance)) (\<lambda>sk.
     call (EncryptAndMapToLiteral tm instance sk) (encryptAndMapToLiteral env tm instance sk))"

text \<open>\<open>setup\<close> (the name is a keyword of Isabelle, hence \<open>setup_single\<close>).\<close>

definition setup_single :: "env \<Rightarrow> Id option \<Rightarrow> entity \<Rightarrow> Params option \<Rightarrow> json comp" where
  "setup_single env listId instance extraHeaders =
     (let typeRef = inst_type instance in
      bindC (validateAndPrepareRestRequest env typeRef listId None None extraHeaders) (\<lambda>p.
      bindC (checkListId (typeModel p) listId) (\<lambda>_.
      bindC (encryptNew env (typeModel p) instance) (\<lambda>encryptedEntity.
      bindC (request env (path p) POST (queryParams p) (headers p)
               (Some (JSON_stringify env encryptedEntity)) (Some Json)) (\<lambda>persistencePostReturn.
      bindC (liftE (JSON_parse env persistencePostReturn)) (\<lambda>parsed.
      liftE (getProperty parsed ''generatedId'')))))))"

text \<open>The body of the \<open>try\<close> block of \<open>setupMultiple\<close>: one chunk in one POST.\<close>

definition postChunk :: "env \<Rightarrow> prepared \<Rightarrow> entity list \<Rightarrow> json list comp" where
  "postChunk env p instanceChunk =
     bindC (promiseMap instanceChunk (encryptNew env (typeModel p))) (\<lambda>encryptedEntities.
       let qp = [(''count'', String_nat (length instanceChunk))] in
       bindC (request env (path p) POST qp (headers p)
                (Some (JSON_stringify env (JArray encryptedEntities))) (Some Json)) (\<lambda>persistencePostReturn.
       bindC (liftE (JSON_parse env persistencePostReturn)) (\<lambda>postReturn.
       bindC (liftE (arrayOf postReturn)) (\<lambda>elems.
       liftE (mapE (\<lambda>e. getProperty e ''generatedId'') elems)))))"

text \<open>
  The fallback for one instance: \<open>this.setup(listId, instance).catch(...)\<close>, which pushes
  the error and the instance and evaluates to undefined.
\<close>

definition setupOrRecord ::
  "env \<Rightarrow> Id option \<Rightarrow> entity \<Rightarrow> rest_error list \<times> entity list \<Rightarrow> (json \<times> rest_error list \<times> entity list) comp"
where
  "setupOrRecord env listId instance acc =
     (case acc of (errors, failedInstances) \<Rightarrow>
      catchC (bindC (setup_single env listId instance None) (\<lambda>i. returnC (i, errors, failedInstances)))
        (\<lambda>e. returnC (JUndefined, errors @ [e], failedInstances @ [instance])))"

text \<open>The mapper of \<open>setupMultiple\<close> for one chunk, with the arrays \<open>errors\<close> and \<open>failedInstances\<close>.\<close>

definition setupMultiple_chunk ::
  "env \<Rightarrow> Id option \<Rightarrow> prepared \<Rightarrow> entity list \<Rightarrow> rest_error list \<times> entity list \<Rightarrow>
     (json list \<times> rest_error list \<times> entity list) comp"
where
  "setupMultiple_chunk env listId p instanceChunk acc =
     (case acc of (errors, failedInstances) \<Rightarrow>
      catchC (bindC (postChunk env p instanceChunk) (\<lambda>ids. returnC (ids, errors, failedInstances)))
        (\<lambda>e. if isPayloadTooLargeError e
              then bindC (promiseMapAcc instanceChunk (setupOrRecord env listId) (errors, failedInstances))
                     (\<lambda>(returnedIds, acc'). returnC (filter Boolean returnedIds, acc'))
              else returnC ([], errors @ [e], failedInstances @ instanceChunk)))"

definition setupMultiple :: "env \<Rightarrow> Id option \<Rightarrow> entity list \<Rightarrow> json list comp" where
  "setupMultiple env listId instances =
     (let count = length instances in
      if count < 1 then returnC []
      else
        let instanceChunks = splitInChunks (POST_MULTIPLE_LIMIT env) instances;
            typeRef = inst_type (instances ! 0)
        in
        bindC (validateAndPrepareRestRequest env typeRef listId None None None) (\<lambda>p.
        bindC (checkListId (typeModel p) listId) (\<lambda>_.
        bindC (promiseMapAcc instanceChunks (setupMultiple_chunk env listId p) ([], []))
          (\<lambda>(idChunks, errors, failedInstances).
             if length errors \<noteq> 0
             then throwC (SetupMultipleError ''Setup multiple entities failed'' errors failedInstances)
             else returnC (flat idChunks)))))"

definition update :: "env \<Rightarrow> entity \<Rightarrow> unit comp" where
  "update env instance =
     (if \<not> truthyIdOrTuple (inst_id instance) then throwC (Error ''Id must be defined'')
      else
        (case expandId (the (inst_id instance)) of (listId, elementId) \<Rightarrow>
         bindC (validateAndPrepareRestRequest env (inst_type instance) listId (Some elementId) None None) (\<lambda>p.
         bindC (call (ResolveSessionKey (typeModel p) (Inr instance))
                  (resolveSessionKey env (typeModel p) (Inr instance))) (\<lambda>sessionKey.
         bindC (call (EncryptAndMapToLiteral (typeModel p) instance sessionKey)
                  (encryptAndMapToLiteral env (typeModel p) instance sessionKey)) (\<lambda>encryptedEntity.
         bindC (request env (path p) PUT (queryParams p) (headers p)
                  (Some (JSON_stringify env encryptedEntity)) (Some Json)) (\<lambda>_.
         returnC ()))))))"

text \<open>
  \<open>erase\<close>. An instance without \<open>_id\<close> makes \<open>expandId\<close> fail with a TypeError.
\<close>

definition erase :: "env \<Rightarrow> entity \<Rightarrow> unit comp" where
  "erase env instance =
     (case inst_id instance of
        None \<Rightarrow> throwC (OtherError ''TypeError'' ''null is not iterable'')
      | Some i \<Rightarrow>
        (case expandId i of (listId, elementId) \<Rightarrow>
         bindC (validateAndPrepareRestRequest env (inst_type instance) listId (Some elementId) None None) (\<lambda>p.
         bindC (request env (path p) DELETE (queryParams p) (headers p) None None) (\<lambda>_.
         returnC ()))))"

subsection \<open>Reading the record of the calls\<close>

fun requests :: "event list \<Rightarrow> rest_request list" where
  "requests [] = []"
| "requests (Request r # t) = r # requests t"
| "requests (ev # t) = requests t"

fun isEncryption :: "event \<Rightarrow> bool" where
  "isEncryption (SetNewOwnerEncSessionKey tm i) = True"
| "isEncryption (EncryptAndMapToLiteral tm i k) = True"
| "isEncryption ev = False"

subsection \<open>Notions of the specification\<close>

text \<open>
  The value of a property of an object. In an association list with a key written twice
  the last pair is the property; an object has every key once.
\<close>

definition propertyOf :: "Params \<Rightarrow> string \<Rightarrow> string option" where
  "propertyOf obj k = map_of (rev obj) k"

text \<open>The merged header set: \<open>Object.assign({}, this._authHeadersProvider(), extraHeaders)\<close>.\<close>

definition mergedHeaders :: "env \<Rightarrow> Params option \<Rightarrow> Params" where
  "mergedHeaders env extraHeaders =
     Object_assign (Object_assign [] (Some (authHeadersProvider env))) extraHeaders"

definition notAuthenticated :: rest_error where
  "notAuthenticated = NotAuthenticatedError ''user must be authenticated for entity requests''"

text \<open>The resource path as the code builds it: a null and an empty id add nothing.\<close>

definition resourcePath :: "TypeRef \<Rightarrow> Id option \<Rightarrow> Id option \<Rightarrow> string" where
  "resourcePath typeRef listId elementId =
     ''/rest/'' @ app typeRef @ ''/'' @ toLowerCase (type typeRef)
       @ (case listId of None \<Rightarrow> [] | Some l \<Rightarrow> if l = [] then [] else ''/'' @ l)
       @ (case elementId of None \<Rightarrow> [] | Some e \<Rightarrow> if e = [] then [] else ''/'' @ e)"

text \<open>
  The resource path in the words of the specification:
  \<open>/<app-namespace>/<lowercased-type-name>\<close>, then \<open>/listId\<close> and \<open>/elementId\<close> when
  present.
\<close>

definition spec_path :: "TypeRef \<Rightarrow> Id option \<Rightarrow> Id option \<Rightarrow> string" where
  "spec_path typeRef listId elementId =
     ''/'' @ app typeRef @ ''/'' @ toLowerCase (type typeRef)
       @ (case listId of None \<Rightarrow> [] | Some l \<Rightarrow> ''/'' @ l)
       @ (case elementId of None \<Rightarrow> [] | Some e \<Rightarrow> ''/'' @ e)"

text \<open>
  The request of \<open>loadMultiple\<close> for one chunk of ids, for a prepared path and header set.
\<close>

definition idsRequest :: "prepared \<Rightarrow> Id list \<Rightarrow> rest_request" where
  "idsRequest p idChunk =
     \<lparr>req_path = path p, req_method = GET, req_queryParams = [(''ids'', join '','' idChunk)],
      req_headers = headers p, req_body = None, req_responseType = Some Json\<rparr>"

text \<open>
  The fallback of \<open>setupMultiple\<close> in the words of the specification: every instance of
  the chunk is set up on its own, and each failure is recorded as the error with the
  instance that failed.
\<close>

definition retryFailures :: "env \<Rightarrow> Id option \<Rightarrow> entity list \<Rightarrow> (rest_error \<times> entity) list" where
  "retryFailures env listId instanceChunk =
     concat (map (\<lambda>i. case fst (setup_single env listId i None) of
                          Inl e \<Rightarrow> [(e, i)]
                        | Inr v \<Rightarrow> []) instanceChunk)"

text \<open>
  The generated ids of the retries that succeeded, those that \<open>filter(Boolean)\<close> keeps.
\<close>

definition retryIds :: "env \<Rightarrow> Id option \<Rightarrow> entity list \<Rightarrow> json list" where
  "retryIds env listId instanceChunk =
     filter Boolean
       (concat (map (\<lambda>i. case fst (setup_single env listId i None) of
                            Inl e \<Rightarrow> []
                          | Inr v \<Rightarrow> [v]) instanceChunk))"

text \<open>
  The result of one chunk in the words of the specification, as generated ids, errors
  and failed instances: the ids of the batched POST where it succeeds; the retries where
  it fails with \<open>PayloadTooLargeError\<close>; the error once and every instance of the
  chunk where it fails otherwise.
\<close>

definition chunkOutcome ::
  "env \<Rightarrow> Id option \<Rightarrow> prepared \<Rightarrow> entity list \<Rightarrow> json list \<times> rest_error list \<times> entity list"
where
  "chunkOutcome env listId p instanceChunk =
     (case fst (postChunk env p instanceChunk) of
        Inr ids \<Rightarrow> (ids, [], [])
      | Inl e \<Rightarrow>
          if isPayloadTooLargeError e
          then (retryIds env listId instanceChunk,
                map fst (retryFailures env listId instanceChunk),
                map snd (retryFailures env listId instanceChunk))
          else ([], [e], instanceChunk))"

text \<open>
  The three parts of the result of a chunk.
\<close>

definition chunkIds :: "json list \<times> rest_error list \<times> entity list \<Rightarrow> json list" where
  "chunkIds out = fst out"

definition chunkErrors :: "json list \<times> rest_error list \<times> entity list \<Rightarrow> rest_error list" where
  "chunkErrors out = fst (snd out)"

definition chunkFailed :: "json list \<times> rest_error list \<times> entity list \<Rightarrow> entity list" where
  "chunkFailed out = snd (snd out)"

subsection \<open>A small world to run the client in\<close>

text \<open>A list element type and an element type, and collaborators that always answer.\<close>

definition MailTypeRef :: TypeRef where
  "MailTypeRef = \<lparr>app = ''tutanota'', type = ''Mail''\<rparr>"

definition UserTypeRef :: TypeRef where
  "UserTypeRef = \<lparr>app = ''sys'', type = ''User''\<rparr>"

text \<open>
  The bodies that the transport of the small world answers with, and what parsing them
  gives.
\<close>

definition sampleParse :: "string \<Rightarrow> rest_error + json" where
  "sampleParse s =
     (if s = ''[]'' then Inr (JArray [])
      else if s = ''[{}]'' then Inr (JArray [JObject []])
      else if s = ''[{},{}]'' then Inr (JArray [JObject [], JObject []])
      else if s = ''{}'' then Inr (JObject [])
      else if s = ''{generatedId:id1}'' then Inr (JObject [(''generatedId'', JString ''id1'')])
      else if s = ''[{generatedId:id1},{generatedId:id2}]''
        then Inr (JArray [JObject [(''generatedId'', JString ''id1'')],
                           JObject [(''generatedId'', JString ''id2'')]])
      else if s = ''[{generatedId:id3}]'' then Inr (JArray [JObject [(''generatedId'', JString ''id3'')]])
      else Inl (OtherError ''SyntaxError'' s))"

text \<open>
  The transport of the small world: a GET with \<open>ids\<close> answers with one instance for
  each of the ids \<open>a\<close>, \<open>b\<close>, \<open>c\<close> and with none for other ids, any other GET with
  one instance; a POST with \<open>count\<close> answers with generated ids for the chunk, any other
  POST with one generated id.
\<close>

definition sampleTransport :: "rest_request \<Rightarrow> rest_error + string" where
  "sampleTransport rq =
     (case req_method rq of
        GET \<Rightarrow>
          (case map_of (req_queryParams rq) ''ids'' of
             None \<Rightarrow> Inr ''{}''
           | Some ids \<Rightarrow>
               if ids = ''a,b'' then Inr ''[{},{}]''
               else if ids = ''c'' then Inr ''[{}]''
               else Inr ''[]'')
      | POST \<Rightarrow>
          (case map_of (req_queryParams rq) ''count'' of
             None \<Rightarrow> Inr ''{generatedId:id1}''
           | Some n \<Rightarrow>
               if n = ''2'' then Inr ''[{generatedId:id1},{generatedId:id2}]''
               else Inr ''[{generatedId:id3}]'')
      | PUT \<Rightarrow> Inr []
      | DELETE \<Rightarrow> Inr [])"

text \<open>
  The mapper of the small world marks an instance that it decrypts without a key with
  the property \<open>_errors\<close>.
\<close>

definition sampleEnv :: env where
  "sampleEnv =
     \<lparr>resolveTypeReference = (\<lambda>r.
        if r = MailTypeRef then Inr \<lparr>model_type = ListElement, version = ''46''\<rparr>
        else if r = UserTypeRef then Inr \<lparr>model_type = Element, version = ''69''\<rparr>
        else Inl (Error ''Cannot find TypeRef'')),
      verifyType = (\<lambda>tm. Inr ()),
      authHeadersProvider = [(''accessToken'', ''token'')],
      restClient_request = sampleTransport,
      JSON_parse = sampleParse,
      JSON_stringify = (\<lambda>j. case j of JString s \<Rightarrow> s | _ \<Rightarrow> ''{}''),
      applyMigrations = (\<lambda>r j. Inr j),
      resolveSessionKey = (\<lambda>tm x. Inr (Some [1, 2, 3])),
      decryptAndMapToInstance = (\<lambda>tm j k.
        Inr \<lparr>inst_type = MailTypeRef, inst_id = None,
             inst_values = (case k of None \<Rightarrow> JObject [(''_errors'', JObject [])] | Some key \<Rightarrow> j)\<rparr>),
      applyMigrationsForInstance = (\<lambda>i. Inr i),
      setNewOwnerEncSessionKey = (\<lambda>tm i. Inr (Some [1, 2, 3])),
      encryptAndMapToLiteral = (\<lambda>tm i k. Inr (inst_values i)),
      LOAD_MULTIPLE_LIMIT = 2,
      POST_MULTIPLE_LIMIT = 2,
      PushIdentifierTypeRef = \<lparr>app = ''sys'', type = ''PushIdentifier''\<rparr>\<rparr>"

text \<open>The same world with an authentication provider that has no headers.\<close>

definition unauthenticatedEnv :: env where
  "unauthenticatedEnv = sampleEnv\<lparr>authHeadersProvider := []\<rparr>"

text \<open>A crypto facade that finds no session key.\<close>

definition keylessEnv :: env where
  "keylessEnv =
     sampleEnv\<lparr>resolveSessionKey := (\<lambda>tm x. Inl (SessionKeyNotFoundError ''no permission found''))\<rparr>"

text \<open>
  The same, with migrations of the instance that fail, as they do when they need a
  server that cannot be reached.
\<close>

definition failingMigrationEnv :: env where
  "failingMigrationEnv =
     keylessEnv\<lparr>applyMigrationsForInstance := (\<lambda>i. Inl (OtherError ''ConnectionError'' ''offline''))\<rparr>"

text \<open>A type reference that the small world does not know.\<close>

definition UnknownTypeRef :: TypeRef where
  "UnknownTypeRef = \<lparr>app = ''tutanota'', type = ''Unknown''\<rparr>"

definition mailInstance :: entity where
  "mailInstance =
     \<lparr>inst_type = MailTypeRef, inst_id = Some (IdTuple ''list1'' ''el1''), inst_values = JString ''mail''\<rparr>"

definition userInstance :: entity where
  "userInstance =
     \<lparr>inst_type = UserTypeRef, inst_id = Some (ElementId ''user1''), inst_values = JString ''user''\<rparr>"

text \<open>The usage error of \<open>setup\<close> and \<open>setupMultiple\<close> for a type model.\<close>

definition listIdError :: "TypeModel \<Rightarrow> rest_error" where
  "listIdError tm =
     Error (if model_type tm = ListElement then ''List id must be defined for LETs''
            else ''List id must not be defined for ETs'')"

text \<open>
  A transport that refuses a batch of two instances as too large and fails on the
  instance \<open>bad\<close>, and an instance with that body.
\<close>

definition tooLargeTransport :: "rest_request \<Rightarrow> rest_error + string" where
  "tooLargeTransport rq =
     (case req_method rq of
        POST \<Rightarrow>
          (case map_of (req_queryParams rq) ''count'' of
             Some n \<Rightarrow>
               if n = ''2'' then Inl (PayloadTooLargeError ''413'') else sampleTransport rq
           | None \<Rightarrow>
               if req_body rq = Some ''bad'' then Inl (OtherError ''InternalServerError'' ''500'')
               else sampleTransport rq)
      | GET \<Rightarrow> sampleTransport rq
      | PUT \<Rightarrow> sampleTransport rq
      | DELETE \<Rightarrow> sampleTransport rq)"

definition tooLargeEnv :: env where
  "tooLargeEnv = sampleEnv\<lparr>restClient_request := tooLargeTransport\<rparr>"

definition badInstance :: entity where
  "badInstance =
     \<lparr>inst_type = MailTypeRef, inst_id = Some (IdTuple ''list1'' ''el2''), inst_values = JString ''bad''\<rparr>"

section \<open>Properties\<close>

subsection \<open>Sequencing\<close>

lemma bindC_Inl [simp]: "bindC (Inl e, t) f = (Inl e, t)"
  by (simp add: bindC_def)

lemma bindC_Inr [simp]: "bindC (Inr a, t) f = (fst (f a), t @ snd (f a))"
  by (simp add: bindC_def split: prod.splits)

lemma fst_bindC: "fst (bindC m f) = (case fst m of Inl e \<Rightarrow> Inl e | Inr a \<Rightarrow> fst (f a))"
  by (cases m; cases "fst m") (auto)

lemma snd_bindC: "snd (bindC m f) = (case fst m of Inl e \<Rightarrow> snd m | Inr a \<Rightarrow> snd m @ snd (f a))"
  by (cases m; cases "fst m") (auto)

lemma bindC_fails: "fst m = Inl e \<Longrightarrow> bindC m f = (Inl e, snd m)"
  by (cases m) auto

lemma requests_append [simp]: "requests (t @ t') = requests t @ requests t'"
  by (induction t rule: requests.induct) auto

subsection \<open>Merging headers\<close>

lemma map_of_fold_update:
  "map_of (fold (\<lambda>(k, v) acc. AList.update k v acc) src tgt) = map_of tgt ++ map_of (rev src)"
proof (induction src arbitrary: tgt)
  case Nil
  then show ?case by simp
next
  case (Cons x xs)
  obtain k v where x: "x = (k, v)" by (cases x)
  have "map_of (fold (\<lambda>(k, v) acc. AList.update k v acc) (x # xs) tgt)
      = map_of (AList.update k v tgt) ++ map_of (rev xs)"
    by (simp only: x fold_simps prod.case Cons.IH)
  also have "\<dots> = (map_of tgt)(k \<mapsto> v) ++ map_of (rev xs)"
    by (simp only: update_conv')
  also have "\<dots> = map_of tgt ++ map_of (rev (x # xs))"
    by (simp add: x map_add_assoc [symmetric] del: fun_upd_apply)
  finally show ?case .
qed


lemma distinct_fold_update:
  "distinct (map fst tgt) \<Longrightarrow> distinct (map fst (fold (\<lambda>(k, v) acc. AList.update k v acc) src tgt))"
  by (induction src arbitrary: tgt) (auto simp: distinct_update)

lemma map_of_rev_distinct: "distinct (map fst al) \<Longrightarrow> map_of (rev al) = map_of al"
  by (rule map_of_inject_set [THEN iffD2]) (auto simp: rev_map [symmetric])

lemma distinct_mergedHeaders: "distinct (map fst (mergedHeaders env extraHeaders))"
  by (cases extraHeaders) (simp_all add: mergedHeaders_def Object_assign_def distinct_fold_update)

lemma propertyOf_mergedHeaders:
  "propertyOf (mergedHeaders env extraHeaders) k =
     (case extraHeaders of
        None \<Rightarrow> propertyOf (authHeadersProvider env) k
      | Some ex \<Rightarrow> (case propertyOf ex k of
                      Some v \<Rightarrow> Some v
                    | None \<Rightarrow> propertyOf (authHeadersProvider env) k))"
proof -
  have "propertyOf (mergedHeaders env extraHeaders) k = map_of (mergedHeaders env extraHeaders) k"
    by (simp add: propertyOf_def map_of_rev_distinct distinct_mergedHeaders)
  then show ?thesis
    by (cases extraHeaders)
       (simp_all add: propertyOf_def mergedHeaders_def Object_assign_def map_of_fold_update
          map_add_def split: option.splits)
qed

subsection \<open>Request preparation\<close>

lemma prepare_resolve_fails:
  "resolveTypeReference env typeRef = Inl e \<Longrightarrow>
   validateAndPrepareRestRequest env typeRef listId elementId qp extraHeaders =
     (Inl e, [ResolveTypeReference typeRef])"
  by (simp add: validateAndPrepareRestRequest_def call_def)

lemma prepare_verify_fails:
  "resolveTypeReference env typeRef = Inr tm \<Longrightarrow> verifyType env tm = Inl e \<Longrightarrow>
   validateAndPrepareRestRequest env typeRef listId elementId qp extraHeaders =
     (Inl e, [ResolveTypeReference typeRef, VerifyType tm])"
  by (simp add: validateAndPrepareRestRequest_def call_def)

lemma resourcePath_eq:
  "resourcePath typeRef listId elementId =
     (let path0 = typeRefToPath typeRef;
          path1 = (if truthyId listId then path0 @ ''/'' @ the listId else path0)
      in if truthyId elementId then path1 @ ''/'' @ the elementId else path1)"
  by (simp add: resourcePath_def typeRefToPath_def truthyId_def Let_def split: option.splits)

lemma prepare_eq:
  assumes "resolveTypeReference env typeRef = Inr tm" and "verifyType env tm = Inr ()"
  shows "validateAndPrepareRestRequest env typeRef listId elementId qp extraHeaders =
     (if mergedHeaders env extraHeaders = []
      then Inl (NotAuthenticatedError ''user must be authenticated for entity requests'')
      else Inr \<lparr>path = resourcePath typeRef listId elementId,
                queryParams = (case qp of None \<Rightarrow> [] | Some q \<Rightarrow> q),
                headers = AList.update ''v'' (version tm) (mergedHeaders env extraHeaders),
                typeModel = tm\<rparr>,
      [ResolveTypeReference typeRef, VerifyType tm, AuthHeadersProvider])"
  using assms
  by (simp add: validateAndPrepareRestRequest_def call_def mergedHeaders_def resourcePath_eq
      Let_def throwC_def returnC_def)

lemma prepare_cases:
  obtains (resolve) e where "resolveTypeReference env typeRef = Inl e"
  | (verify) tm e where "resolveTypeReference env typeRef = Inr tm" "verifyType env tm = Inl e"
  | (ok) tm where "resolveTypeReference env typeRef = Inr tm" "verifyType env tm = Inr ()"
proof (cases "resolveTypeReference env typeRef")
  case (Inl e)
  then show ?thesis by (rule resolve)
next
  case (Inr tm)
  show ?thesis
  proof (cases "verifyType env tm")
    case (Inl e)
    with Inr show ?thesis by (rule verify)
  next
    case (Inr u)
    with \<open>resolveTypeReference env typeRef = Inr tm\<close> show ?thesis by (auto intro: ok)
  qed
qed

lemma prepare_no_requests:
  "requests (snd (validateAndPrepareRestRequest env typeRef listId elementId qp extraHeaders)) = []"
  by (cases rule: prepare_cases [of env typeRef])
     (simp_all add: prepare_resolve_fails prepare_verify_fails prepare_eq)

lemma prepare_Inr:
  assumes "fst (validateAndPrepareRestRequest env typeRef listId elementId qp extraHeaders) = Inr p"
  shows "resolveTypeReference env typeRef = Inr (typeModel p) \<and> verifyType env (typeModel p) = Inr ()
    \<and> mergedHeaders env extraHeaders \<noteq> []
    \<and> p = \<lparr>path = resourcePath typeRef listId elementId,
                queryParams = (case qp of None \<Rightarrow> [] | Some q \<Rightarrow> q),
                headers = AList.update ''v'' (version (typeModel p)) (mergedHeaders env extraHeaders),
                typeModel = typeModel p\<rparr>"
  using assms
  by (cases rule: prepare_cases [of env typeRef])
     (auto simp add: prepare_resolve_fails prepare_verify_fails prepare_eq split: if_splits)

lemma load_prepare_fails:
  "fst (validateAndPrepareRestRequest env typeRef (fst (expandId i)) (Some (snd (expandId i))) qp x) = Inl e \<Longrightarrow>
   load env typeRef i qp x =
     (Inl e, snd (validateAndPrepareRestRequest env typeRef (fst (expandId i)) (Some (snd (expandId i))) qp x))"
  by (simp add: load_def case_prod_beta bindC_fails)

lemma loadRange_prepare_fails:
  "fst (validateAndPrepareRestRequest env typeRef (Some listId) None
         (Some [(''start'', start), (''count'', String_int count), (''reverse'', String_bool reverse)]) None) = Inl e \<Longrightarrow>
   loadRange env typeRef listId start count reverse =
     (Inl e, snd (validateAndPrepareRestRequest env typeRef (Some listId) None
         (Some [(''start'', start), (''count'', String_int count), (''reverse'', String_bool reverse)]) None))"
  by (simp add: loadRange_def bindC_fails Let_def)

lemma loadMultiple_prepare_fails:
  "fst (validateAndPrepareRestRequest env typeRef listId None None None) = Inl e \<Longrightarrow>
   loadMultiple env typeRef listId elementIds =
     (Inl e, snd (validateAndPrepareRestRequest env typeRef listId None None None))"
  by (simp add: loadMultiple_def bindC_fails)

lemma setup_prepare_fails:
  "fst (validateAndPrepareRestRequest env (inst_type instance) listId None None x) = Inl e \<Longrightarrow>
   setup_single env listId instance x =
     (Inl e, snd (validateAndPrepareRestRequest env (inst_type instance) listId None None x))"
  by (simp add: setup_single_def bindC_fails Let_def)

lemma setupMultiple_prepare_fails:
  "instances \<noteq> [] \<Longrightarrow>
   fst (validateAndPrepareRestRequest env (inst_type (hd instances)) listId None None None) = Inl e \<Longrightarrow>
   setupMultiple env listId instances =
     (Inl e, snd (validateAndPrepareRestRequest env (inst_type (hd instances)) listId None None None))"
  by (cases instances) (simp_all add: setupMultiple_def bindC_fails Let_def)

lemma update_prepare_fails:
  "inst_id instance = Some i \<Longrightarrow> truthyIdOrTuple (Some i) \<Longrightarrow>
   fst (validateAndPrepareRestRequest env (inst_type instance) (fst (expandId i)) (Some (snd (expandId i))) None None) = Inl e \<Longrightarrow>
   update env instance =
     (Inl e, snd (validateAndPrepareRestRequest env (inst_type instance) (fst (expandId i)) (Some (snd (expandId i))) None None))"
  by (simp add: update_def case_prod_beta bindC_fails)

lemma erase_prepare_fails:
  "inst_id instance = Some i \<Longrightarrow>
   fst (validateAndPrepareRestRequest env (inst_type instance) (fst (expandId i)) (Some (snd (expandId i))) None None) = Inl e \<Longrightarrow>
   erase env instance =
     (Inl e, snd (validateAndPrepareRestRequest env (inst_type instance) (fst (expandId i)) (Some (snd (expandId i))) None None))"
  by (simp add: erase_def case_prod_beta bindC_fails)

lemma prepare_unauthenticated:
  assumes "resolveTypeReference env typeRef = Inr tm" and "verifyType env tm = Inr ()"
    and "mergedHeaders env extraHeaders = []"
  shows "fst (validateAndPrepareRestRequest env typeRef listId elementId qp extraHeaders) = Inl notAuthenticated"
  using assms by (simp add: prepare_eq notAuthenticated_def)



subsection \<open>The operations\<close>

lemma request_eq:
  "request env p m q h b r =
     (restClient_request env \<lparr>req_path = p, req_method = m, req_queryParams = q, req_headers = h,
                 req_body = b, req_responseType = r\<rparr>,
      [Request \<lparr>req_path = p, req_method = m, req_queryParams = q, req_headers = h,
                 req_body = b, req_responseType = r\<rparr>])"
  by (simp add: request_def call_def Let_def)

lemma prepare_split:
  assumes "fst (validateAndPrepareRestRequest env typeRef listId elementId qp x) = Inr p"
  obtains t where "validateAndPrepareRestRequest env typeRef listId elementId qp x = (Inr p, t)"
  using assms by (cases "validateAndPrepareRestRequest env typeRef listId elementId qp x") auto

lemma resolveSessionKeyOrNull_eq:
  "resolveSessionKeyOrNull env tm w =
     (case resolveSessionKey env tm (Inl w) of
        Inr k \<Rightarrow> (Inr k, [ResolveSessionKey tm (Inl w)])
      | Inl e \<Rightarrow>
          if isSessionKeyNotFoundError e
          then (Inr None, [ResolveSessionKey tm (Inl w), ConsoleLog ''could not resolve session key'' e])
          else (Inl e, [ResolveSessionKey tm (Inl w)]))"
  by (simp add: resolveSessionKeyOrNull_def catchC_def call_def ofClass_def consoleLog_def
      returnC_def throwC_def split: sum.splits)

lemma load_after_key_error:
  assumes P: "fst (validateAndPrepareRestRequest env typeRef (fst (expandId i)) (Some (snd (expandId i))) qp x) = Inr p"
    and R: "restClient_request env
              \<lparr>req_path = path p, req_method = GET, req_queryParams = queryParams p,
                req_headers = headers p, req_body = None, req_responseType = Some Json\<rparr> = Inr body"
    and J: "JSON_parse env body = Inr wire"
    and M: "applyMigrations env typeRef wire = Inr migrated"
    and K: "resolveSessionKey env (typeModel p) (Inl migrated) = Inl err"
  shows "load env typeRef i qp x =
     (if isSessionKeyNotFoundError err
      then (case decryptAndMapToInstance env (typeModel p) migrated None of
              Inl e \<Rightarrow> Inl e
            | Inr inst \<Rightarrow> applyMigrationsForInstance env inst)
      else Inl err,
      snd (validateAndPrepareRestRequest env typeRef (fst (expandId i)) (Some (snd (expandId i))) qp x)
        @ [Request \<lparr>req_path = path p, req_method = GET, req_queryParams = queryParams p,
                req_headers = headers p, req_body = None, req_responseType = Some Json\<rparr>,
           ApplyMigrations typeRef wire,
           ResolveSessionKey (typeModel p) (Inl migrated)]
        @ (if isSessionKeyNotFoundError err
           then [ConsoleLog ''could not resolve session key'' err,
                 DecryptAndMapToInstance (typeModel p) migrated None]
                @ (case decryptAndMapToInstance env (typeModel p) migrated None of
                     Inl e \<Rightarrow> []
                   | Inr inst \<Rightarrow> [ApplyMigrationsForInstance inst])
           else []))"
proof -
  obtain t where t: "validateAndPrepareRestRequest env typeRef (fst (expandId i)) (Some (snd (expandId i))) qp x = (Inr p, t)"
    using P by (rule prepare_split)
  show ?thesis
    using R J M K
    by (simp add: load_def case_prod_beta t request_eq liftE_def call_def
        resolveSessionKeyOrNull_eq split: sum.splits)
qed


lemma prepare_no_encryption:
  "filter isEncryption (snd (validateAndPrepareRestRequest env typeRef listId elementId qp extraHeaders)) = []"
  by (cases rule: prepare_cases [of env typeRef])
     (simp_all add: prepare_resolve_fails prepare_verify_fails prepare_eq)

lemma prepare_outcome:
  assumes "resolveTypeReference env typeRef = Inr tm"
  shows "fst (validateAndPrepareRestRequest env typeRef listId elementId qp x) =
     (case verifyType env tm of
        Inl e \<Rightarrow> Inl e
      | Inr u \<Rightarrow>
          if mergedHeaders env x = [] then Inl notAuthenticated
          else Inr \<lparr>path = resourcePath typeRef listId elementId,
                    queryParams = (case qp of None \<Rightarrow> [] | Some q \<Rightarrow> q),
                    headers = AList.update ''v'' (version tm) (mergedHeaders env x),
                    typeModel = tm\<rparr>)"
  using assms
  by (cases "verifyType env tm")
     (simp_all add: prepare_verify_fails prepare_eq notAuthenticated_def)

lemma loadRange_outcome:
  assumes r: "resolveTypeReference env typeRef = Inr tm" and ne: "model_type tm \<noteq> ListElement"
  shows "fst (loadRange env typeRef listId start count reverse) =
     (case verifyType env tm of
        Inl e \<Rightarrow> Inl e
      | Inr u \<Rightarrow>
          if mergedHeaders env None = [] then Inl notAuthenticated
          else Inl (Error ''only ListElement types are permitted''))"
    and "requests (snd (loadRange env typeRef listId start count reverse)) = []"
proof -
  let ?prep = "validateAndPrepareRestRequest env typeRef (Some listId) None
     (Some [(''start'', start), (''count'', String_int count), (''reverse'', String_bool reverse)]) None"
  have eq: "loadRange env typeRef listId start count reverse =
      (case fst ?prep of Inl e \<Rightarrow> Inl e | Inr p \<Rightarrow> Inl (Error ''only ListElement types are permitted''),
       snd ?prep)"
  proof (cases "fst ?prep")
    case (Inl e)
    then show ?thesis by (simp add: loadRange_prepare_fails)
  next
    case (Inr p)
    then obtain t where t: "?prep = (Inr p, t)" by (rule prepare_split)
    from prepare_Inr [OF Inr] r have "typeModel p = tm" by simp
    with ne show ?thesis
      by (simp add: loadRange_def Let_def t throwC_def)
  qed
  show "fst (loadRange env typeRef listId start count reverse) =
     (case verifyType env tm of
        Inl e \<Rightarrow> Inl e
      | Inr u \<Rightarrow>
          if mergedHeaders env None = [] then Inl notAuthenticated
          else Inl (Error ''only ListElement types are permitted''))"
    by (simp add: eq prepare_outcome [OF r] split: sum.splits)
  show "requests (snd (loadRange env typeRef listId start count reverse)) = []"
    by (simp add: eq prepare_no_requests)
qed

lemma checkListId_eq:
  "checkListId tm listId =
     (if model_type tm = ListElement
      then (if listId = None \<or> listId = Some [] then Inl (Error ''List id must be defined for LETs'') else Inr ())
      else (if listId = None \<or> listId = Some [] then Inr () else Inl (Error ''List id must not be defined for ETs'')),
      [])"
  by (simp add: checkListId_def truthyId_def throwC_def returnC_def split: option.splits)

lemma setup_outcome_mismatch:
  assumes r: "resolveTypeReference env (inst_type inst) = Inr tm"
    and mm: "(model_type tm = ListElement \<and> (listId = None \<or> listId = Some []))
           \<or> (model_type tm \<noteq> ListElement \<and> listId \<noteq> None \<and> listId \<noteq> Some [])"
  shows "setup_single env listId inst x =
     (case verifyType env tm of
        Inl e \<Rightarrow> Inl e
      | Inr u \<Rightarrow> if mergedHeaders env x = [] then Inl notAuthenticated else Inl (listIdError tm),
      snd (validateAndPrepareRestRequest env (inst_type inst) listId None None x))"
proof -
  let ?prep = "validateAndPrepareRestRequest env (inst_type inst) listId None None x"
  show ?thesis
  proof (cases "fst ?prep")
    case (Inl e)
    then show ?thesis
      using prepare_outcome [OF r, of listId None None x]
      by (simp add: setup_prepare_fails split: sum.splits if_splits)
  next
    case (Inr p)
    then obtain t where t: "?prep = (Inr p, t)" by (rule prepare_split)
    from prepare_Inr [OF Inr] r have tm: "typeModel p = tm" by simp
    from Inr prepare_outcome [OF r, of listId None None x]
    have "verifyType env tm = Inr () \<and> mergedHeaders env x \<noteq> []"
      by (auto split: sum.splits if_splits)
    with mm tm show ?thesis
      by (auto simp add: setup_single_def Let_def t checkListId_eq listIdError_def)
  qed
qed

lemma setupMultiple_outcome_mismatch:
  assumes ne: "instances \<noteq> []"
    and r: "resolveTypeReference env (inst_type (hd instances)) = Inr tm"
    and mm: "(model_type tm = ListElement \<and> (listId = None \<or> listId = Some []))
           \<or> (model_type tm \<noteq> ListElement \<and> listId \<noteq> None \<and> listId \<noteq> Some [])"
  shows "setupMultiple env listId instances =
     (case verifyType env tm of
        Inl e \<Rightarrow> Inl e
      | Inr u \<Rightarrow> if mergedHeaders env None = [] then Inl notAuthenticated else Inl (listIdError tm),
      snd (validateAndPrepareRestRequest env (inst_type (hd instances)) listId None None None))"
proof -
  let ?prep = "validateAndPrepareRestRequest env (inst_type (hd instances)) listId None None None"
  from ne have hd0: "instances ! 0 = hd instances" by (cases instances) auto
  show ?thesis
  proof (cases "fst ?prep")
    case (Inl e)
    then show ?thesis
      using prepare_outcome [OF r, of listId None None None] ne
      by (simp add: setupMultiple_prepare_fails split: sum.splits if_splits)
  next
    case (Inr p)
    then obtain t where t: "?prep = (Inr p, t)" by (rule prepare_split)
    from prepare_Inr [OF Inr] r have tm: "typeModel p = tm" by simp
    from Inr prepare_outcome [OF r, of listId None None None]
    have "verifyType env tm = Inr () \<and> mergedHeaders env None \<noteq> []"
      by (auto split: sum.splits if_splits)
    with mm tm ne show ?thesis
      by (auto simp add: setupMultiple_def Let_def hd0 t checkListId_eq listIdError_def)
  qed
qed

subsection \<open>Chunks\<close>

lemma ceil_div_step:
  assumes "0 < k" and "0 < (n::nat)"
  shows "Suc ((n - k + k - 1) div k) = (n + k - 1) div k"
proof -
  from assms obtain m where n: "n = Suc m" by (cases n) auto
  have r: "(n + k - 1) div k = Suc (m div k)"
    using assms by (simp add: n div_add_self2)
  show ?thesis
  proof (cases "k \<le> n")
    case True
    then have "n - k + k - 1 = m" by (simp add: n)
    then show ?thesis by (simp only: r)
  next
    case False
    then have l: "n - k + k - 1 = k - 1" by simp
    from False have "m < k" by (simp add: n)
    then have "m div k = 0" by simp
    moreover from assms have "(k - 1) div k = 0" by simp
    ultimately show ?thesis by (simp only: r l)
  qed
qed

lemma length_splitInChunks:
  "0 < k \<Longrightarrow>
   length (splitInChunks k xs) = (if xs = [] then 1 else (length xs + k - 1) div k)"
proof (induction k xs rule: splitInChunks.induct)
  case (1 chunkSize array)
  from "1.prems" have k: "\<not> chunkSize < 1" by simp
  show ?case
  proof (cases "chunkSize < length array")
    case True
    then have ne': "drop chunkSize array \<noteq> []" by simp
    from True have ne: "array \<noteq> []" by auto
    then have pos: "0 < length array" by simp
    have IH: "length (splitInChunks chunkSize (drop chunkSize array))
        = (length (drop chunkSize array) + chunkSize - 1) div chunkSize"
      using "1.IH" [OF k True "1.prems"] ne' by simp
    have "length (splitInChunks chunkSize array)
        = Suc (length (splitInChunks chunkSize (drop chunkSize array)))"
      using True k by (subst splitInChunks.simps) simp
    also have "\<dots> = Suc ((length array - chunkSize + chunkSize - 1) div chunkSize)"
      by (simp only: IH length_drop)
    also have "\<dots> = (length array + chunkSize - 1) div chunkSize"
      using "1.prems" pos by (rule ceil_div_step)
    finally show ?thesis using ne by simp
  next
    case False
    then have one: "length (splitInChunks chunkSize array) = 1"
      using k by (subst splitInChunks.simps) simp
    show ?thesis
    proof (cases "array = []")
      case True
      with one show ?thesis by simp
    next
      case ne: False
      then obtain m where m: "length array = Suc m" by (cases array) auto
      with False have "m < chunkSize" by simp
      then have "(length array + chunkSize - 1) div chunkSize = 1"
        using "1.prems" by (simp add: m div_add_self2)
      with one ne show ?thesis by simp
    qed
  qed
qed

lemma concat_splitInChunks: "0 < k \<Longrightarrow> concat (splitInChunks k xs) = xs"
proof (induction k xs rule: splitInChunks.induct)
  case (1 chunkSize array)
  then show ?case
    by (subst splitInChunks.simps) auto
qed

lemma splitInChunks_sizes:
  "c \<in> set (splitInChunks k xs) \<Longrightarrow> length c \<le> k \<and> (xs \<noteq> [] \<longrightarrow> c \<noteq> [])"
proof (induction k xs arbitrary: c rule: splitInChunks.induct)
  case (1 chunkSize array)
  show ?case
  proof (cases "chunkSize < 1")
    case True
    with "1.prems" show ?thesis by (simp add: splitInChunks.simps)
  next
    case k: False
    with "1.prems" have "c = take chunkSize array
        \<or> (chunkSize < length array \<and> c \<in> set (splitInChunks chunkSize (drop chunkSize array)))"
      by (subst (asm) splitInChunks.simps) (simp split: if_splits)
    then show ?thesis
    proof
      assume "c = take chunkSize array"
      with k show ?thesis by auto
    next
      assume r: "chunkSize < length array \<and> c \<in> set (splitInChunks chunkSize (drop chunkSize array))"
      then have "drop chunkSize array \<noteq> []" by auto
      with "1.IH" [OF k] r show ?thesis by auto
    qed
  qed
qed

lemma splitInChunks_empty: "0 < k \<Longrightarrow> splitInChunks k [] = [[]]"
  by (subst splitInChunks.simps) simp

subsection \<open>Mapping with promises\<close>

lemma promiseMap_Inr:
  "fst (promiseMap xs f) = Inr ys \<Longrightarrow> list_all2 (\<lambda>x y. fst (f x) = Inr y) xs ys"
proof (induction xs arbitrary: ys)
  case Nil
  then show ?case by (simp add: returnC_def)
next
  case (Cons x xs)
  then show ?case
    by (auto simp add: fst_bindC returnC_def split: sum.splits)
qed

lemma promiseMap_trace:
  "fst (promiseMap xs f) = Inr ys \<Longrightarrow> snd (promiseMap xs f) = concat (map (\<lambda>x. snd (f x)) xs)"
proof (induction xs arbitrary: ys)
  case Nil
  then show ?case by (simp add: returnC_def)
next
  case (Cons x xs)
  then show ?case
    by (auto simp add: fst_bindC snd_bindC returnC_def split: sum.splits)
qed

lemma promiseMap_no_requests:
  "(\<And>x. requests (snd (f x)) = []) \<Longrightarrow> requests (snd (promiseMap xs f)) = []"
  by (induction xs) (auto simp add: snd_bindC returnC_def split: sum.splits)

lemma decryptLoaded_no_requests: "requests (snd (decryptLoaded env model w)) = []"
  by (simp add: decryptLoaded_def resolveSessionKeyOrNull_eq snd_bindC call_def split: sum.splits)

lemma handleLoadMultipleResult_no_requests:
  "requests (snd (handleLoadMultipleResult env typeRef parsed)) = []"
  by (simp add: handleLoadMultipleResult_def snd_bindC fst_bindC call_def liftE_def returnC_def
      promiseMap_no_requests decryptLoaded_no_requests split: sum.splits)

lemma handleLoadMultipleResult_Inr:
  assumes "fst (handleLoadMultipleResult env typeRef parsed) = Inr ents"
  shows "\<exists>model wire. resolveTypeReference env typeRef = Inr model \<and> iterableOf parsed = Inr wire
          \<and> list_all2 (\<lambda>w e. fst (decryptLoaded env model w) = Inr e) wire ents"
proof -
  from assms obtain model where m: "resolveTypeReference env typeRef = Inr model"
    by (cases "resolveTypeReference env typeRef") (auto simp: handleLoadMultipleResult_def call_def)
  from assms m obtain wire where w: "iterableOf parsed = Inr wire"
    by (cases "iterableOf parsed") (auto simp: handleLoadMultipleResult_def call_def liftE_def)
  from assms m w have "fst (promiseMap wire (decryptLoaded env model)) = Inr ents"
    by (auto simp: handleLoadMultipleResult_def call_def liftE_def fst_bindC returnC_def
        split: sum.splits if_splits)
  then show ?thesis using m w by (auto dest: promiseMap_Inr)
qed

lemma loadMultiple_chunk_requests:
  "requests (snd (loadMultiple_chunk env typeRef (path p) (headers p) c)) = [idsRequest p c]"
  by (simp add: loadMultiple_chunk_def Let_def request_eq snd_bindC liftE_def idsRequest_def
      handleLoadMultipleResult_no_requests split: sum.splits)

lemma loadMultiple_chunk_Inr:
  assumes "fst (loadMultiple_chunk env typeRef (path p) (headers p) c) = Inr ents"
  shows "\<exists>body parsed wire model. restClient_request env (idsRequest p c) = Inr body
          \<and> JSON_parse env body = Inr parsed
          \<and> iterableOf parsed = Inr wire
          \<and> resolveTypeReference env typeRef = Inr model
          \<and> list_all2 (\<lambda>w e. fst (decryptLoaded env model w) = Inr e) wire ents"
proof -
  from assms obtain body where b: "restClient_request env (idsRequest p c) = Inr body"
    by (cases "restClient_request env (idsRequest p c)")
       (auto simp: loadMultiple_chunk_def Let_def request_eq idsRequest_def)
  from assms b obtain parsed where j: "JSON_parse env body = Inr parsed"
    by (cases "JSON_parse env body")
       (auto simp: loadMultiple_chunk_def Let_def request_eq idsRequest_def liftE_def)
  from assms b j have "fst (handleLoadMultipleResult env typeRef parsed) = Inr ents"
    by (auto simp: loadMultiple_chunk_def Let_def request_eq idsRequest_def liftE_def)
  from handleLoadMultipleResult_Inr [OF this] b j show ?thesis by auto
qed

lemma requests_concat: "requests (concat ts) = concat (map requests ts)"
  by (induction ts) auto

lemma length_concat_all2:
  "list_all2 (\<lambda>c l. length l = length c) cs ls \<Longrightarrow> length (concat ls) = length (concat cs)"
  by (induction cs ls rule: list_all2_induct) auto

lemma catchC_Inr [simp]: "catchC (Inr a, t) h = (Inr a, t)"
  by (simp add: catchC_def)

lemma catchC_Inl [simp]: "catchC (Inl e, t) h = (fst (h e), t @ snd (h e))"
  by (simp add: catchC_def split: prod.splits)

lemma setupOrRecord_eq:
  "setupOrRecord env listId i (E, F) =
     (Inr (case fst (setup_single env listId i None) of
             Inl e \<Rightarrow> (JUndefined, E @ [e], F @ [i])
           | Inr v \<Rightarrow> (v, E, F)),
      snd (setup_single env listId i None))"
  by (cases "setup_single env listId i None"; cases "fst (setup_single env listId i None)")
     (auto simp add: setupOrRecord_def returnC_def)

lemma retry_all:
  "promiseMapAcc c (setupOrRecord env listId) (E, F) =
     (Inr (map (\<lambda>i. case fst (setup_single env listId i None) of Inl e \<Rightarrow> JUndefined | Inr v \<Rightarrow> v) c,
           E @ map fst (retryFailures env listId c),
           F @ map snd (retryFailures env listId c)),
      concat (map (\<lambda>i. snd (setup_single env listId i None)) c))"
proof (induction c arbitrary: E F)
  case Nil
  then show ?case by (simp add: returnC_def retryFailures_def)
next
  case (Cons i c)
  show ?case
  proof (cases "fst (setup_single env listId i None)")
    case (Inl e)
    then show ?thesis
      by (simp add: setupOrRecord_eq Cons.IH returnC_def retryFailures_def)
  next
    case (Inr v)
    then show ?thesis
      by (simp add: setupOrRecord_eq Cons.IH returnC_def retryFailures_def)
  qed
qed

lemma filter_Boolean_retried:
  "filter Boolean (map (\<lambda>i. case fst (setup_single env listId i None) of Inl e \<Rightarrow> JUndefined | Inr v \<Rightarrow> v) c)
     = retryIds env listId c"
  by (induction c) (auto simp add: retryIds_def split: sum.splits)

lemma setupMultiple_chunk_eq:
  "setupMultiple_chunk env listId p c (E, F) =
     (Inr (chunkIds (chunkOutcome env listId p c),
           E @ chunkErrors (chunkOutcome env listId p c),
           F @ chunkFailed (chunkOutcome env listId p c)),
      snd (postChunk env p c)
        @ (case fst (postChunk env p c) of
             Inr ids \<Rightarrow> []
           | Inl e \<Rightarrow> if isPayloadTooLargeError e
                      then concat (map (\<lambda>i. snd (setup_single env listId i None)) c)
                      else []))"
proof (cases "fst (postChunk env p c)")
  case (Inl e)
  then obtain t where t: "postChunk env p c = (Inl e, t)"
    by (cases "postChunk env p c") auto
  show ?thesis
    by (simp add: setupMultiple_chunk_def t retry_all returnC_def chunkOutcome_def
        chunkIds_def chunkErrors_def chunkFailed_def filter_Boolean_retried)
next
  case (Inr ids)
  then obtain t where t: "postChunk env p c = (Inr ids, t)"
    by (cases "postChunk env p c") auto
  show ?thesis
    by (simp add: setupMultiple_chunk_def t returnC_def chunkOutcome_def
        chunkIds_def chunkErrors_def chunkFailed_def)
qed

lemma setupMultiple_chunks_eq:
  "fst (promiseMapAcc cs (setupMultiple_chunk env listId p) (E, F)) =
     Inr (map (\<lambda>c. chunkIds (chunkOutcome env listId p c)) cs,
          E @ concat (map (\<lambda>c. chunkErrors (chunkOutcome env listId p c)) cs),
          F @ concat (map (\<lambda>c. chunkFailed (chunkOutcome env listId p c)) cs))"
proof (induction cs arbitrary: E F)
  case Nil
  then show ?case by (simp add: returnC_def)
next
  case (Cons c cs)
  then show ?case
    by (simp add: setupMultiple_chunk_eq fst_bindC returnC_def split: prod.splits)
qed

lemma setupMultiple_eq:
  assumes ne: "instances \<noteq> []"
    and P: "fst (validateAndPrepareRestRequest env (inst_type (hd instances)) listId None None None) = Inr p"
    and V: "fst (checkListId (typeModel p) listId) = Inr ()"
  shows "fst (setupMultiple env listId instances) =
     (let outs = map (chunkOutcome env listId p) (splitInChunks (POST_MULTIPLE_LIMIT env) instances);
          errors = concat (map chunkErrors outs);
          failedInstances = concat (map chunkFailed outs)
      in if errors = []
         then Inr (concat (map chunkIds outs))
         else Inl (SetupMultipleError ''Setup multiple entities failed'' errors failedInstances))"
proof -
  from ne have hd0: "instances ! 0 = hd instances" by (cases instances) auto
  from ne have len: "\<not> length instances < 1" by (cases instances) auto
  obtain t where t: "validateAndPrepareRestRequest env (inst_type (hd instances)) listId None None None = (Inr p, t)"
    using P by (rule prepare_split)
  from V have v: "checkListId (typeModel p) listId = (Inr (), [])"
    by (simp add: checkListId_eq split: if_splits)
  show ?thesis
    using len
    by (simp add: setupMultiple_def Let_def hd0 t v fst_bindC setupMultiple_chunks_eq
        throwC_def returnC_def flat_def comp_def)
qed

subsection \<open>Evaluation in the small world\<close>

lemmas sample_simps = sampleEnv_def unauthenticatedEnv_def keylessEnv_def MailTypeRef_def UserTypeRef_def
  sampleTransport_def sampleParse_def mailInstance_def userInstance_def

lemmas run_simps = validateAndPrepareRestRequest_def call_def returnC_def throwC_def
  Object_assign_def typeRefToPath_def truthyId_def toLowerCase_def toLowerCase_char_def
  liftE_def request_def consoleLog_def

lemmas load_simps = loadMultiple_def loadMultiple_chunk_def handleLoadMultipleResult_def
  decryptLoaded_def resolveSessionKeyOrNull_eq isSameTypeRef_def flat_def Let_def
  splitInChunks.simps

lemmas setup_simps = chunkOutcome_def retryIds_def retryFailures_def chunkIds_def chunkErrors_def
  chunkFailed_def postChunk_def setup_single_def encryptNew_def checkListId_eq Let_def
  splitInChunks.simps String_nat.simps request_eq tooLargeEnv_def tooLargeTransport_def badInstance_def

section \<open>The claims\<close>

text \<open>
  C9. \<open>setupMultiple\<close> with an empty list of instances returns the empty list and
  calls no collaborator at all: no network request, no type resolution, no validation,
  no encryption.
\<close>

theorem setupMultiple_empty: "setupMultiple env listId [] = (Inr [], [])"
  by (simp add: setupMultiple_def returnC_def)

text \<open>
  C8. Every prepared request has the header \<open>v\<close>, and its value is the version of the
  type model that the type reference resolves to.
\<close>

theorem prepared_headers_carry_version:
  assumes "fst (validateAndPrepareRestRequest env typeRef listId elementId qp extraHeaders) = Inr p"
  shows "map_of (headers p) ''v'' = Some (version (typeModel p))
    \<and> resolveTypeReference env typeRef = Inr (typeModel p)"
proof -
  from prepare_Inr [OF assms]
  have r: "resolveTypeReference env typeRef = Inr (typeModel p)"
    and h: "headers p = AList.update ''v'' (version (typeModel p)) (mergedHeaders env extraHeaders)"
    by (auto, metis prepared.select_convs(3))
  show ?thesis using r h by (simp add: update_conv')
qed

theorem prepared_headers_carry_version_witness:
  "fst (validateAndPrepareRestRequest sampleEnv MailTypeRef (Some ''list1'') (Some ''el1'') None None)
     = Inr \<lparr>path = ''/rest/tutanota/mail/list1/el1'', queryParams = [],
            headers = [(''accessToken'', ''token''), (''v'', ''46'')],
            typeModel = \<lparr>model_type = ListElement, version = ''46''\<rparr>\<rparr>
   \<and> map_of [(''accessToken'', ''token''), (''v'', ''46'')] ''v'' = Some ''46''"
proof -
  have e: "fst (validateAndPrepareRestRequest sampleEnv MailTypeRef (Some ''list1'') (Some ''el1'') None None)
     = Inr \<lparr>path = ''/rest/tutanota/mail/list1/el1'', queryParams = [],
            headers = [(''accessToken'', ''token''), (''v'', ''46'')],
            typeModel = \<lparr>model_type = ListElement, version = ''46''\<rparr>\<rparr>"
    by (simp add: run_simps sample_simps)
  from prepared_headers_carry_version [OF e] show ?thesis using e by simp
qed

text \<open>
  C2, as the code has it. The path of every prepared request is \<open>/rest\<close>, then
  \<open>/<app>/<lowercased type name>\<close>, then \<open>/listId\<close> when a list id is given and not
  empty, then \<open>/elementId\<close> when an element id is given and not empty, and nothing else.
\<close>

theorem prepared_path:
  assumes "fst (validateAndPrepareRestRequest env typeRef listId elementId qp extraHeaders) = Inr p"
  shows "path p =
     ''/rest/'' @ app typeRef @ ''/'' @ toLowerCase (type typeRef)
       @ (case listId of None \<Rightarrow> [] | Some l \<Rightarrow> if l = [] then [] else ''/'' @ l)
       @ (case elementId of None \<Rightarrow> [] | Some e \<Rightarrow> if e = [] then [] else ''/'' @ e)"
proof -
  from prepare_Inr [OF assms] have "path p = resourcePath typeRef listId elementId"
    by (auto, metis prepared.select_convs(1))
  then show ?thesis by (simp add: resourcePath_def)
qed

theorem prepared_path_witness:
  "fst (validateAndPrepareRestRequest sampleEnv UserTypeRef None (Some ''el1'') None None)
     = Inr \<lparr>path = ''/rest/sys/user/el1'', queryParams = [],
            headers = [(''accessToken'', ''token''), (''v'', ''69'')],
            typeModel = \<lparr>model_type = Element, version = ''69''\<rparr>\<rparr>
   \<and> ''/rest/sys/user/el1'' = ''/rest/'' @ ''sys'' @ ''/'' @ toLowerCase ''User'' @ [] @ ''/'' @ ''el1''"
proof -
  have e: "fst (validateAndPrepareRestRequest sampleEnv UserTypeRef None (Some ''el1'') None None)
     = Inr \<lparr>path = ''/rest/sys/user/el1'', queryParams = [],
            headers = [(''accessToken'', ''token''), (''v'', ''69'')],
            typeModel = \<lparr>model_type = Element, version = ''69''\<rparr>\<rparr>"
    by (simp add: run_simps sample_simps)
  from prepared_path [OF e] show ?thesis using e by (simp add: UserTypeRef_def)
qed

text \<open>
  C2, as the specification states it, fails: for the mail type with list id \<open>list1\<close> and
  element id \<open>el1\<close> the prepared path is \<open>/rest/tutanota/mail/list1/el1\<close>, not
  \<open>/tutanota/mail/list1/el1\<close>.
\<close>

theorem prepared_path_is_not_spec_path:
  "map_sum id path
     (fst (validateAndPrepareRestRequest sampleEnv MailTypeRef (Some ''list1'') (Some ''el1'') None None))
     = Inr ''/rest/tutanota/mail/list1/el1''
   \<and> spec_path MailTypeRef (Some ''list1'') (Some ''el1'') = ''/tutanota/mail/list1/el1''
   \<and> map_sum id path
     (fst (validateAndPrepareRestRequest sampleEnv MailTypeRef (Some ''list1'') (Some ''el1'') None None))
     \<noteq> Inr (spec_path MailTypeRef (Some ''list1'') (Some ''el1''))"
  by (simp add: run_simps sample_simps spec_path_def)

text \<open>
  C5, as the code has it. Where the type reference resolves and verifies, the two steps
  that come first and whose errors are raised as they are, request preparation merges the
  headers of the authentication provider with the extra headers of the caller, an extra
  header winning over an authentication header of the same name; it raises
  \<open>NotAuthenticatedError\<close> exactly when the merged header set is empty, and otherwise
  returns the merged headers with the version header added. Preparation issues no
  network request, and every operation whose merged header set is empty raises
  \<open>NotAuthenticatedError\<close> without having issued one.
\<close>

theorem preparation_merges_headers_and_gates_authentication:
  assumes r: "resolveTypeReference env typeRef = Inr tm" and v: "verifyType env tm = Inr ()"
  shows "(\<forall>k. propertyOf (mergedHeaders env extraHeaders) k =
            (case extraHeaders of
               None \<Rightarrow> propertyOf (authHeadersProvider env) k
             | Some ex \<Rightarrow> (case propertyOf ex k of
                             Some v \<Rightarrow> Some v
                           | None \<Rightarrow> propertyOf (authHeadersProvider env) k)))
    \<and> ((fst (validateAndPrepareRestRequest env typeRef listId elementId qp extraHeaders) = Inl notAuthenticated)
         = (mergedHeaders env extraHeaders = []))
    \<and> (mergedHeaders env extraHeaders \<noteq> [] \<longrightarrow>
         (\<exists>p. fst (validateAndPrepareRestRequest env typeRef listId elementId qp extraHeaders) = Inr p
            \<and> headers p = AList.update ''v'' (version tm) (mergedHeaders env extraHeaders)))
    \<and> requests (snd (validateAndPrepareRestRequest env typeRef listId elementId qp extraHeaders)) = []
    \<and> (mergedHeaders env extraHeaders = [] \<longrightarrow>
         fst (load env typeRef i qp extraHeaders) = Inl notAuthenticated
         \<and> requests (snd (load env typeRef i qp extraHeaders)) = []
         \<and> (inst_type inst = typeRef \<longrightarrow>
              fst (setup_single env listId inst extraHeaders) = Inl notAuthenticated
              \<and> requests (snd (setup_single env listId inst extraHeaders)) = []))
    \<and> (mergedHeaders env None = [] \<longrightarrow>
         fst (loadRange env typeRef l start count reverse) = Inl notAuthenticated
         \<and> requests (snd (loadRange env typeRef l start count reverse)) = []
         \<and> fst (loadMultiple env typeRef listId elementIds) = Inl notAuthenticated
         \<and> requests (snd (loadMultiple env typeRef listId elementIds)) = []
         \<and> (instances \<noteq> [] \<and> inst_type (hd instances) = typeRef \<longrightarrow>
              fst (setupMultiple env listId instances) = Inl notAuthenticated
              \<and> requests (snd (setupMultiple env listId instances)) = [])
         \<and> (inst_type inst = typeRef \<and> truthyIdOrTuple (inst_id inst) \<longrightarrow>
              fst (update env inst) = Inl notAuthenticated
              \<and> requests (snd (update env inst)) = [])
         \<and> (inst_type inst = typeRef \<and> inst_id inst \<noteq> None \<longrightarrow>
              fst (erase env inst) = Inl notAuthenticated
              \<and> requests (snd (erase env inst)) = []))"
proof -
  note un = prepare_unauthenticated [OF r v]
  have merge: "\<forall>k. propertyOf (mergedHeaders env extraHeaders) k =
            (case extraHeaders of
               None \<Rightarrow> propertyOf (authHeadersProvider env) k
             | Some ex \<Rightarrow> (case propertyOf ex k of
                             Some v \<Rightarrow> Some v
                           | None \<Rightarrow> propertyOf (authHeadersProvider env) k))"
    by (simp add: propertyOf_mergedHeaders)
  have gate: "(fst (validateAndPrepareRestRequest env typeRef listId elementId qp extraHeaders) = Inl notAuthenticated)
         = (mergedHeaders env extraHeaders = [])"
    by (simp add: prepare_eq [OF r v] notAuthenticated_def)
  have ok: "mergedHeaders env extraHeaders \<noteq> [] \<longrightarrow>
         (\<exists>p. fst (validateAndPrepareRestRequest env typeRef listId elementId qp extraHeaders) = Inr p
            \<and> headers p = AList.update ''v'' (version tm) (mergedHeaders env extraHeaders))"
    by (simp add: prepare_eq [OF r v])
  have ld: "mergedHeaders env extraHeaders = [] \<longrightarrow>
         fst (load env typeRef i qp extraHeaders) = Inl notAuthenticated
         \<and> requests (snd (load env typeRef i qp extraHeaders)) = []"
    by (simp add: load_prepare_fails [OF un] prepare_no_requests)
  have st: "mergedHeaders env extraHeaders = [] \<longrightarrow> inst_type inst = typeRef \<longrightarrow>
              fst (setup_single env listId inst extraHeaders) = Inl notAuthenticated
              \<and> requests (snd (setup_single env listId inst extraHeaders)) = []"
    using setup_prepare_fails [of env inst listId extraHeaders notAuthenticated] un
    by (auto simp: prepare_no_requests)
  have lr: "mergedHeaders env None = [] \<longrightarrow>
         fst (loadRange env typeRef l start count reverse) = Inl notAuthenticated
         \<and> requests (snd (loadRange env typeRef l start count reverse)) = []"
    using prepare_unauthenticated [OF r v, of None]
    by (simp add: loadRange_prepare_fails prepare_no_requests)
  have lm: "mergedHeaders env None = [] \<longrightarrow>
         fst (loadMultiple env typeRef listId elementIds) = Inl notAuthenticated
         \<and> requests (snd (loadMultiple env typeRef listId elementIds)) = []"
    using prepare_unauthenticated [OF r v, of None]
    by (simp add: loadMultiple_prepare_fails prepare_no_requests)
  have sm: "mergedHeaders env None = [] \<longrightarrow> instances \<noteq> [] \<and> inst_type (hd instances) = typeRef \<longrightarrow>
              fst (setupMultiple env listId instances) = Inl notAuthenticated
              \<and> requests (snd (setupMultiple env listId instances)) = []"
    using prepare_unauthenticated [OF r v, of None]
    by (auto simp add: setupMultiple_prepare_fails prepare_no_requests)
  have up: "mergedHeaders env None = [] \<longrightarrow> inst_type inst = typeRef \<and> truthyIdOrTuple (inst_id inst) \<longrightarrow>
              fst (update env inst) = Inl notAuthenticated
              \<and> requests (snd (update env inst)) = []"
  proof (cases "inst_id inst")
    case None
    then show ?thesis by (simp add: truthyIdOrTuple_def)
  next
    case (Some j)
    then show ?thesis
      using prepare_unauthenticated [OF r v, of None]
      by (auto simp add: update_prepare_fails prepare_no_requests)
  qed
  have er: "mergedHeaders env None = [] \<longrightarrow> inst_type inst = typeRef \<and> inst_id inst \<noteq> None \<longrightarrow>
              fst (erase env inst) = Inl notAuthenticated
              \<and> requests (snd (erase env inst)) = []"
    using prepare_unauthenticated [OF r v, of None]
    by (auto simp add: erase_prepare_fails prepare_no_requests)
  show ?thesis
    using merge gate ok ld st lr lm sm up er prepare_no_requests [of env typeRef listId elementId qp extraHeaders]
    by blast
qed

theorem preparation_merges_headers_and_gates_authentication_witness:
  "mergedHeaders unauthenticatedEnv None = []
   \<and> fst (validateAndPrepareRestRequest unauthenticatedEnv MailTypeRef (Some ''list1'') None None None)
       = Inl notAuthenticated
   \<and> fst (loadMultiple unauthenticatedEnv MailTypeRef (Some ''list1'') [''el1'', ''el2''])
       = Inl notAuthenticated
   \<and> requests (snd (loadMultiple unauthenticatedEnv MailTypeRef (Some ''list1'') [''el1'', ''el2''])) = []"
proof -
  have r: "resolveTypeReference unauthenticatedEnv MailTypeRef = Inr \<lparr>model_type = ListElement, version = ''46''\<rparr>"
    by (simp add: sample_simps)
  have v: "verifyType unauthenticatedEnv \<lparr>model_type = ListElement, version = ''46''\<rparr> = Inr ()"
    by (simp add: sample_simps)
  have m: "mergedHeaders unauthenticatedEnv None = []"
    by (simp add: mergedHeaders_def Object_assign_def sample_simps)
  from preparation_merges_headers_and_gates_authentication
    [OF r v, where extraHeaders = None and listId = "Some ''list1''" and elementId = None
       and qp = None and elementIds = "[''el1'', ''el2'']"]
  show ?thesis using m by simp
qed

text \<open>
  C5, as the specification states it, fails: without authentication headers and without
  extra headers the merged header set is empty, and yet the preparation of a request for
  a type reference that does not resolve raises the error of the resolution, not
  \<open>NotAuthenticatedError\<close>.
\<close>

theorem preparation_unknown_type_without_headers:
  "mergedHeaders unauthenticatedEnv None = []
   \<and> validateAndPrepareRestRequest unauthenticatedEnv UnknownTypeRef None None None None
       = (Inl (Error ''Cannot find TypeRef''), [ResolveTypeReference UnknownTypeRef])"
  by (simp add: mergedHeaders_def run_simps sample_simps UnknownTypeRef_def)

text \<open>
  C4, as the code has it. Where \<open>load\<close> has prepared its request, got and parsed the answer and applied the
  migrations, and \<open>resolveSessionKey\<close> raises: on \<open>SessionKeyNotFoundError\<close> the error
  is logged and not raised, the instance is decrypted with the key null, and the outcome
  of \<open>load\<close> is that of the instance mapper and then of the migrations of the
  instance: the entity that they return, or the error that one of them raises. Every
  other error of \<open>resolveSessionKey\<close> is the outcome of \<open>load\<close>.
\<close>

theorem load_session_key_not_found:
  assumes P: "fst (validateAndPrepareRestRequest env typeRef (fst (expandId i)) (Some (snd (expandId i))) qp x) = Inr p"
    and R: "restClient_request env
              \<lparr>req_path = path p, req_method = GET, req_queryParams = queryParams p,
                req_headers = headers p, req_body = None, req_responseType = Some Json\<rparr> = Inr body"
    and J: "JSON_parse env body = Inr wire"
    and M: "applyMigrations env typeRef wire = Inr migrated"
    and K: "resolveSessionKey env (typeModel p) (Inl migrated) = Inl err"
  shows "fst (load env typeRef i qp x) =
     (if isSessionKeyNotFoundError err
      then (case decryptAndMapToInstance env (typeModel p) migrated None of
              Inl e \<Rightarrow> Inl e
            | Inr inst \<Rightarrow> applyMigrationsForInstance env inst)
      else Inl err)
    \<and> (isSessionKeyNotFoundError err \<longrightarrow>
         ConsoleLog ''could not resolve session key'' err \<in> set (snd (load env typeRef i qp x))
         \<and> DecryptAndMapToInstance (typeModel p) migrated None \<in> set (snd (load env typeRef i qp x)))
    \<and> (\<forall>inst r. isSessionKeyNotFoundError err
          \<and> decryptAndMapToInstance env (typeModel p) migrated None = Inr inst
          \<and> applyMigrationsForInstance env inst = Inr r
          \<longrightarrow> fst (load env typeRef i qp x) = Inr r)"
  by (simp add: load_after_key_error [OF P R J M K])

theorem load_session_key_not_found_witness:
  "resolveSessionKey keylessEnv \<lparr>model_type = ListElement, version = ''46''\<rparr> (Inl (JObject []))
     = Inl (SessionKeyNotFoundError ''no permission found'')
   \<and> fst (load keylessEnv MailTypeRef (IdTuple ''list1'' ''el1'') None None)
     = Inr \<lparr>inst_type = MailTypeRef, inst_id = None,
            inst_values = JObject [(''_errors'', JObject [])]\<rparr>"
proof -
  let ?p = "\<lparr>path = ''/rest/tutanota/mail/list1/el1'', queryParams = [],
            headers = [(''accessToken'', ''token''), (''v'', ''46'')],
            typeModel = \<lparr>model_type = ListElement, version = ''46''\<rparr>\<rparr>"
  have P: "fst (validateAndPrepareRestRequest keylessEnv MailTypeRef
             (fst (expandId (IdTuple ''list1'' ''el1''))) (Some (snd (expandId (IdTuple ''list1'' ''el1'')))) None None)
           = Inr ?p"
    by (simp add: run_simps sample_simps)
  have R: "restClient_request keylessEnv
              \<lparr>req_path = path ?p, req_method = GET, req_queryParams = queryParams ?p,
                req_headers = headers ?p, req_body = None, req_responseType = Some Json\<rparr> = Inr ''{}''"
    by (simp add: sample_simps)
  have J: "JSON_parse keylessEnv ''{}'' = Inr (JObject [])"
    by (simp add: sample_simps)
  have M: "applyMigrations keylessEnv MailTypeRef (JObject []) = Inr (JObject [])"
    by (simp add: sample_simps)
  have K: "resolveSessionKey keylessEnv (typeModel ?p) (Inl (JObject []))
     = Inl (SessionKeyNotFoundError ''no permission found'')"
    by (simp add: sample_simps)
  from load_session_key_not_found [OF P R J M K] K
  show ?thesis by (simp add: sample_simps)
qed

text \<open>
  C4, as the specification states it, fails: the crypto facade finds no session key, the
  instance is decrypted with the key null, the migrations of the instance fail, and
  \<open>load\<close> raises their error: the two calls that follow the handler have none.
\<close>

theorem load_raises_after_key_not_found:
  "resolveSessionKey failingMigrationEnv \<lparr>model_type = ListElement, version = ''46''\<rparr> (Inl (JObject []))
     = Inl (SessionKeyNotFoundError ''no permission found'')
   \<and> load failingMigrationEnv MailTypeRef (IdTuple ''list1'' ''el1'') None None
     = (Inl (OtherError ''ConnectionError'' ''offline''),
        [ResolveTypeReference MailTypeRef,
         VerifyType \<lparr>model_type = ListElement, version = ''46''\<rparr>,
         AuthHeadersProvider,
         Request \<lparr>req_path = ''/rest/tutanota/mail/list1/el1'', req_method = GET,
                  req_queryParams = [],
                  req_headers = [(''accessToken'', ''token''), (''v'', ''46'')],
                  req_body = None, req_responseType = Some Json\<rparr>,
         ApplyMigrations MailTypeRef (JObject []),
         ResolveSessionKey \<lparr>model_type = ListElement, version = ''46''\<rparr> (Inl (JObject [])),
         ConsoleLog ''could not resolve session key'' (SessionKeyNotFoundError ''no permission found''),
         DecryptAndMapToInstance \<lparr>model_type = ListElement, version = ''46''\<rparr> (JObject []) None,
         ApplyMigrationsForInstance
           \<lparr>inst_type = MailTypeRef, inst_id = None,
              inst_values = JObject [(''_errors'', JObject [])]\<rparr>])"
  by (simp add: load_def resolveSessionKeyOrNull_eq request_eq run_simps sample_simps
      failingMigrationEnv_def)



text \<open>
  C7, as the code has it. \<open>loadRange\<close> on a type that resolves to a kind other than
  \<open>ListElement\<close> always fails and never issues a network request. It fails with the
  error of the type verification if that raises, with \<open>NotAuthenticatedError\<close> if there
  are no authentication headers, and with the usage error that only list element types
  are permitted in every other case.
\<close>

theorem loadRange_not_list_element:
  assumes r: "resolveTypeReference env typeRef = Inr tm" and ne: "model_type tm \<noteq> ListElement"
  shows "fst (loadRange env typeRef listId start count reverse) =
     (case verifyType env tm of
        Inl e \<Rightarrow> Inl e
      | Inr u \<Rightarrow>
          if mergedHeaders env None = [] then Inl notAuthenticated
          else Inl (Error ''only ListElement types are permitted''))
    \<and> requests (snd (loadRange env typeRef listId start count reverse)) = []"
  using loadRange_outcome [OF r ne] by simp

theorem loadRange_not_list_element_witness:
  "fst (loadRange sampleEnv UserTypeRef ''list1'' ''el0'' 10 False)
     = Inl (Error ''only ListElement types are permitted'')
   \<and> requests (snd (loadRange sampleEnv UserTypeRef ''list1'' ''el0'' 10 False)) = []"
proof -
  have r: "resolveTypeReference sampleEnv UserTypeRef = Inr \<lparr>model_type = Element, version = ''69''\<rparr>"
    by (simp add: sample_simps)
  have ne: "model_type \<lparr>model_type = Element, version = ''69''\<rparr> \<noteq> ListElement"
    by simp
  from loadRange_not_list_element [OF r ne]
  show ?thesis by (simp add: sample_simps mergedHeaders_def Object_assign_def)
qed

text \<open>
  C7, as the specification states it, fails: the user type is an element type, and
  \<open>loadRange\<close> on it without authentication headers fails with
  \<open>NotAuthenticatedError\<close>, which is not a usage error.
\<close>

theorem loadRange_unauthenticated:
  "map_sum id model_type (resolveTypeReference unauthenticatedEnv UserTypeRef) = Inr Element
   \<and> fst (loadRange unauthenticatedEnv UserTypeRef ''list1'' ''el0'' 10 False)
       = Inl (NotAuthenticatedError ''user must be authenticated for entity requests'')"
  by (simp add: loadRange_def Let_def run_simps sample_simps)

text \<open>
  C6, as the code has it. \<open>setup\<close> and \<open>setupMultiple\<close> (with at least one instance) on
  a type that resolves to \<open>ListElement\<close> with a null or empty list id, and on a type
  that resolves to another kind with a list id that is neither null nor empty, always
  fail, and before any encryption and any network request. They fail with the error of
  the type verification if that raises, with \<open>NotAuthenticatedError\<close> if the merged
  headers are empty, and with the usage error in every other case.
\<close>

theorem setup_list_id_mismatch:
  assumes r: "resolveTypeReference env (inst_type inst) = Inr tm"
    and mm: "(model_type tm = ListElement \<and> (listId = None \<or> listId = Some []))
           \<or> (model_type tm \<noteq> ListElement \<and> listId \<noteq> None \<and> listId \<noteq> Some [])"
  shows "fst (setup_single env listId inst x) =
       (case verifyType env tm of
          Inl e \<Rightarrow> Inl e
        | Inr u \<Rightarrow> if mergedHeaders env x = [] then Inl notAuthenticated else Inl (listIdError tm))
    \<and> filter isEncryption (snd (setup_single env listId inst x)) = []
    \<and> requests (snd (setup_single env listId inst x)) = []
    \<and> (instances \<noteq> [] \<and> hd instances = inst \<longrightarrow>
         fst (setupMultiple env listId instances) =
           (case verifyType env tm of
              Inl e \<Rightarrow> Inl e
            | Inr u \<Rightarrow> if mergedHeaders env None = [] then Inl notAuthenticated else Inl (listIdError tm))
         \<and> filter isEncryption (snd (setupMultiple env listId instances)) = []
         \<and> requests (snd (setupMultiple env listId instances)) = [])"
  using setupMultiple_outcome_mismatch [of instances env tm listId] r mm
  by (auto simp add: setup_outcome_mismatch [OF r mm] prepare_no_encryption prepare_no_requests)

theorem setup_list_id_mismatch_witness:
  "fst (setup_single sampleEnv None mailInstance None) = Inl (Error ''List id must be defined for LETs'')
   \<and> snd (setup_single sampleEnv None mailInstance None) =
       [ResolveTypeReference MailTypeRef, VerifyType \<lparr>model_type = ListElement, version = ''46''\<rparr>,
        AuthHeadersProvider]
   \<and> fst (setupMultiple sampleEnv None [mailInstance, mailInstance]) = Inl (Error ''List id must be defined for LETs'')
   \<and> requests (snd (setupMultiple sampleEnv None [mailInstance, mailInstance])) = []"
proof -
  have r: "resolveTypeReference sampleEnv (inst_type mailInstance) = Inr \<lparr>model_type = ListElement, version = ''46''\<rparr>"
    by (simp add: sample_simps)
  have mm: "(model_type \<lparr>model_type = ListElement, version = ''46''\<rparr> = ListElement \<and> (None = None \<or> None = Some []))
           \<or> (model_type \<lparr>model_type = ListElement, version = ''46''\<rparr> \<noteq> ListElement \<and> None \<noteq> None \<and> None \<noteq> Some [])"
    by simp
  have t: "snd (setup_single sampleEnv None mailInstance None) =
       [ResolveTypeReference MailTypeRef, VerifyType \<lparr>model_type = ListElement, version = ''46''\<rparr>,
        AuthHeadersProvider]"
    by (simp add: setup_single_def Let_def checkListId_eq run_simps sample_simps)
  from setup_list_id_mismatch [OF r mm, of None "[mailInstance, mailInstance]"] t
  show ?thesis by (simp add: sample_simps mergedHeaders_def Object_assign_def listIdError_def)
qed

text \<open>
  C6, as the specification states it, fails twice. \<open>setup\<close> of a mail (a list element
  type) with a null list id and without authentication headers fails with
  \<open>NotAuthenticatedError\<close>, which is not a usage error. \<open>setup\<close> of a user (an element
  type) with the empty string as list id, which is not null, does not fail: the
  instance is encrypted and posted, and the generated id is returned.
\<close>

theorem setup_mismatch_without_usage_error:
  "fst (setup_single unauthenticatedEnv None mailInstance None)
     = Inl (NotAuthenticatedError ''user must be authenticated for entity requests'')
   \<and> fst (setup_single sampleEnv (Some []) userInstance None) = Inr (JString ''id1'')
   \<and> snd (setup_single sampleEnv (Some []) userInstance None) =
       [ResolveTypeReference UserTypeRef, VerifyType \<lparr>model_type = Element, version = ''69''\<rparr>,
        AuthHeadersProvider,
        SetNewOwnerEncSessionKey \<lparr>model_type = Element, version = ''69''\<rparr> userInstance,
        EncryptAndMapToLiteral \<lparr>model_type = Element, version = ''69''\<rparr> userInstance (Some [1, 2, 3]),
        Request \<lparr>req_path = ''/rest/sys/user'', req_method = POST, req_queryParams = [],
                 req_headers = [(''accessToken'', ''token''), (''v'', ''69'')],
                 req_body = Some ''user'', req_responseType = Some Json\<rparr>]"
  by (simp add: setup_single_def Let_def checkListId_eq encryptNew_def run_simps sample_simps)

text \<open>
  C3, as the code has it. A \<open>loadMultiple\<close> call that returns, with \<open>N\<close> element ids
  and a chunk limit \<open>K > 0\<close>, has issued one request for each chunk of the ids, all of
  them GET requests with the one prepared path and header set, the request of a chunk
  with the query parameter \<open>ids\<close> set to the comma-joined ids of the chunk. The chunks
  are the input in its order, none longer than \<open>K\<close>: \<open>ceil(N/K)\<close> chunks, none empty,
  when there are ids, and one empty chunk, hence one request with empty \<open>ids\<close>, when
  there are none. The result is the concatenation, in chunk order, of the entities
  decoded from the answers, one for each element that the answer is iterated to and in
  that order. It has \<open>N\<close> entities when every answer has as many elements as its chunk
  has ids.
\<close>

theorem loadMultiple_chunks:
  assumes ok: "fst (loadMultiple env typeRef listId elementIds) = Inr result"
    and K: "0 < LOAD_MULTIPLE_LIMIT env"
  shows "\<exists>p loaded.
      fst (validateAndPrepareRestRequest env typeRef listId None None None) = Inr p
    \<and> requests (snd (loadMultiple env typeRef listId elementIds))
        = map (idsRequest p) (splitInChunks (LOAD_MULTIPLE_LIMIT env) elementIds)
    \<and> length (splitInChunks (LOAD_MULTIPLE_LIMIT env) elementIds)
        = (if elementIds = [] then 1
           else (length elementIds + LOAD_MULTIPLE_LIMIT env - 1) div LOAD_MULTIPLE_LIMIT env)
    \<and> concat (splitInChunks (LOAD_MULTIPLE_LIMIT env) elementIds) = elementIds
    \<and> list_all (\<lambda>idChunk. length idChunk \<le> LOAD_MULTIPLE_LIMIT env)
          (splitInChunks (LOAD_MULTIPLE_LIMIT env) elementIds)
    \<and> (if elementIds = []
        then splitInChunks (LOAD_MULTIPLE_LIMIT env) elementIds = [[]]
        else list_all (\<lambda>idChunk. idChunk \<noteq> []) (splitInChunks (LOAD_MULTIPLE_LIMIT env) elementIds))
    \<and> list_all2
         (\<lambda>idChunk entities. \<exists>body parsed wire.
             restClient_request env (idsRequest p idChunk) = Inr body
           \<and> JSON_parse env body = Inr parsed
           \<and> iterableOf parsed = Inr wire
           \<and> list_all2 (\<lambda>w e. fst (decryptLoaded env (typeModel p) w) = Inr e) wire entities)
         (splitInChunks (LOAD_MULTIPLE_LIMIT env) elementIds) loaded
    \<and> result = concat loaded
    \<and> (list_all2 (\<lambda>idChunk entities. length entities = length idChunk)
          (splitInChunks (LOAD_MULTIPLE_LIMIT env) elementIds) loaded
        \<longrightarrow> length result = length elementIds)"
proof -
  let ?prep = "validateAndPrepareRestRequest env typeRef listId None None None"
  let ?chunks = "splitInChunks (LOAD_MULTIPLE_LIMIT env) elementIds"
  from ok obtain p where P: "fst ?prep = Inr p"
    by (cases "fst ?prep") (auto simp: loadMultiple_prepare_fails)
  then obtain t where t: "?prep = (Inr p, t)" by (rule prepare_split)
  let ?f = "loadMultiple_chunk env typeRef (path p) (headers p)"
  from ok obtain loaded where L: "fst (promiseMap ?chunks ?f) = Inr loaded"
    and res: "result = concat loaded"
    by (cases "fst (promiseMap ?chunks ?f)")
       (auto simp: loadMultiple_def t Let_def fst_bindC returnC_def flat_def)
  have tm: "resolveTypeReference env typeRef = Inr (typeModel p)"
    using prepare_Inr [OF P] by simp
  have reqs: "requests (snd (loadMultiple env typeRef listId elementIds)) = map (idsRequest p) ?chunks"
  proof -
    have "requests t = []" using prepare_no_requests [of env typeRef listId None None None] t by simp
    moreover have "requests (snd (promiseMap ?chunks ?f)) = map (idsRequest p) ?chunks"
      by (simp add: promiseMap_trace [OF L] requests_concat loadMultiple_chunk_requests comp_def)
    ultimately show ?thesis
      using L by (simp add: loadMultiple_def t Let_def snd_bindC returnC_def)
  qed
  have per: "list_all2
         (\<lambda>idChunk entities. \<exists>body parsed wire.
             restClient_request env (idsRequest p idChunk) = Inr body
           \<and> JSON_parse env body = Inr parsed
           \<and> iterableOf parsed = Inr wire
           \<and> list_all2 (\<lambda>w e. fst (decryptLoaded env (typeModel p) w) = Inr e) wire entities)
         ?chunks loaded"
    using promiseMap_Inr [OF L]
  proof (rule list_all2_mono)
    fix c ents
    assume "fst (?f c) = Inr ents"
    from loadMultiple_chunk_Inr [OF this] tm
    show "\<exists>body parsed wire.
             restClient_request env (idsRequest p c) = Inr body
           \<and> JSON_parse env body = Inr parsed
           \<and> iterableOf parsed = Inr wire
           \<and> list_all2 (\<lambda>w e. fst (decryptLoaded env (typeModel p) w) = Inr e) wire ents"
      by auto
  qed
  have len: "list_all2 (\<lambda>idChunk entities. length entities = length idChunk) ?chunks loaded
        \<longrightarrow> length result = length elementIds"
    using length_concat_all2 [of ?chunks loaded] concat_splitInChunks [OF K, of elementIds] res
    by auto
  have sizes: "list_all (\<lambda>idChunk. length idChunk \<le> LOAD_MULTIPLE_LIMIT env) ?chunks"
    by (simp add: list_all_iff splitInChunks_sizes)
  have empties: "if elementIds = [] then ?chunks = [[]] else list_all (\<lambda>idChunk. idChunk \<noteq> []) ?chunks"
    using splitInChunks_sizes [of _ "LOAD_MULTIPLE_LIMIT env" elementIds]
    by (auto simp add: list_all_iff splitInChunks_empty [OF K])
  show ?thesis
    using P reqs length_splitInChunks [OF K, of elementIds] concat_splitInChunks [OF K, of elementIds]
      sizes empties per res len
    by blast
qed

theorem loadMultiple_chunks_witness:
  "fst (loadMultiple sampleEnv MailTypeRef (Some ''list1'') [''a'', ''b'', ''c''])
     = Inr [\<lparr>inst_type = MailTypeRef, inst_id = None, inst_values = JObject []\<rparr>,
            \<lparr>inst_type = MailTypeRef, inst_id = None, inst_values = JObject []\<rparr>,
            \<lparr>inst_type = MailTypeRef, inst_id = None, inst_values = JObject []\<rparr>]
   \<and> requests (snd (loadMultiple sampleEnv MailTypeRef (Some ''list1'') [''a'', ''b'', ''c'']))
     = [\<lparr>req_path = ''/rest/tutanota/mail/list1'', req_method = GET,
          req_queryParams = [(''ids'', ''a,b'')],
          req_headers = [(''accessToken'', ''token''), (''v'', ''46'')],
          req_body = None, req_responseType = Some Json\<rparr>,
        \<lparr>req_path = ''/rest/tutanota/mail/list1'', req_method = GET,
          req_queryParams = [(''ids'', ''c'')],
          req_headers = [(''accessToken'', ''token''), (''v'', ''46'')],
          req_body = None, req_responseType = Some Json\<rparr>]"
proof -
  let ?p = "\<lparr>path = ''/rest/tutanota/mail/list1'', queryParams = [],
            headers = [(''accessToken'', ''token''), (''v'', ''46'')],
            typeModel = \<lparr>model_type = ListElement, version = ''46''\<rparr>\<rparr>"
  have ok: "fst (loadMultiple sampleEnv MailTypeRef (Some ''list1'') [''a'', ''b'', ''c''])
     = Inr [\<lparr>inst_type = MailTypeRef, inst_id = None, inst_values = JObject []\<rparr>,
            \<lparr>inst_type = MailTypeRef, inst_id = None, inst_values = JObject []\<rparr>,
            \<lparr>inst_type = MailTypeRef, inst_id = None, inst_values = JObject []\<rparr>]"
    by (simp add: load_simps request_eq run_simps sample_simps)
  have K: "0 < LOAD_MULTIPLE_LIMIT sampleEnv"
    by (simp add: sample_simps)
  have P: "fst (validateAndPrepareRestRequest sampleEnv MailTypeRef (Some ''list1'') None None None) = Inr ?p"
    by (simp add: run_simps sample_simps)
  have C: "splitInChunks (LOAD_MULTIPLE_LIMIT sampleEnv) [''a'', ''b'', ''c''] = [[''a'', ''b''], [''c'']]"
    by (simp add: sample_simps splitInChunks.simps)
  from loadMultiple_chunks [OF ok K] obtain p where
    "fst (validateAndPrepareRestRequest sampleEnv MailTypeRef (Some ''list1'') None None None) = Inr p"
    and "requests (snd (loadMultiple sampleEnv MailTypeRef (Some ''list1'') [''a'', ''b'', ''c'']))
        = map (idsRequest p) (splitInChunks (LOAD_MULTIPLE_LIMIT sampleEnv) [''a'', ''b'', ''c''])"
    by blast
  with P C have "requests (snd (loadMultiple sampleEnv MailTypeRef (Some ''list1'') [''a'', ''b'', ''c'']))
        = map (idsRequest ?p) [[''a'', ''b''], [''c'']]"
    by simp
  with ok show ?thesis by (simp add: idsRequest_def)
qed

text \<open>
  C3, as the specification states it, fails twice. \<open>loadMultiple\<close> of no id at all
  issues one request, with empty \<open>ids\<close>, where \<open>ceil(0/K)\<close> is zero. And the small world
  has no instance for the id \<open>x\<close>: its transport answers with the empty array, and
  \<open>loadMultiple\<close> of the one id returns no entity.
\<close>

theorem loadMultiple_request_and_entity_counts:
  "requests (snd (loadMultiple sampleEnv MailTypeRef (Some ''list1'') []))
     = [\<lparr>req_path = ''/rest/tutanota/mail/list1'', req_method = GET,
          req_queryParams = [(''ids'', [])],
          req_headers = [(''accessToken'', ''token''), (''v'', ''46'')],
          req_body = None, req_responseType = Some Json\<rparr>]
   \<and> fst (loadMultiple sampleEnv MailTypeRef (Some ''list1'') []) = Inr []
   \<and> (length ([] :: Id list) + LOAD_MULTIPLE_LIMIT sampleEnv - 1) div LOAD_MULTIPLE_LIMIT sampleEnv = 0
   \<and> fst (loadMultiple sampleEnv MailTypeRef (Some ''list1'') [''x'']) = Inr []
   \<and> requests (snd (loadMultiple sampleEnv MailTypeRef (Some ''list1'') [''x'']))
     = [\<lparr>req_path = ''/rest/tutanota/mail/list1'', req_method = GET,
          req_queryParams = [(''ids'', ''x'')],
          req_headers = [(''accessToken'', ''token''), (''v'', ''46'')],
          req_body = None, req_responseType = Some Json\<rparr>]
   \<and> length [''x''] \<noteq> length ([] :: entity list)"
  by (simp add: load_simps request_eq run_simps sample_simps)

text \<open>
  C1. Where \<open>setupMultiple\<close> has at least one instance, has prepared its request and
  the list id fits the kind of the type, its outcome is that of the chunks: each chunk
  gives generated ids, errors and failed instances, and if any chunk gave an error the
  call raises one \<open>SetupMultipleError\<close> with all errors and all failed instances, in
  chunk order, and returns no id; if none did, it returns the ids of the chunks in chunk
  order. A chunk whose batched POST raises \<open>PayloadTooLargeError\<close> runs \<open>setup\<close> for
  every one of its instances, in order, and gives each failure as the error with the
  instance that failed; a chunk whose POST raises another error gives the error once and
  all of its instances as failed; a chunk whose POST succeeds gives its ids.
\<close>

theorem setupMultiple_failure_policy:
  assumes ne: "instances \<noteq> []"
    and P: "fst (validateAndPrepareRestRequest env (inst_type (hd instances)) listId None None None) = Inr p"
    and V: "fst (checkListId (typeModel p) listId) = Inr ()"
  shows "fst (setupMultiple env listId instances) =
       (let outs = map (chunkOutcome env listId p) (splitInChunks (POST_MULTIPLE_LIMIT env) instances);
            errors = concat (map chunkErrors outs);
            failedInstances = concat (map chunkFailed outs)
        in if errors = []
           then Inr (concat (map chunkIds outs))
           else Inl (SetupMultipleError ''Setup multiple entities failed'' errors failedInstances))
    \<and> (\<forall>c e. fst (postChunk env p c) = Inl e \<and> isPayloadTooLargeError e \<longrightarrow>
          chunkOutcome env listId p c =
            (retryIds env listId c,
             map fst (retryFailures env listId c),
             map snd (retryFailures env listId c))
          \<and> snd (setupMultiple_chunk env listId p c acc) =
              snd (postChunk env p c) @ concat (map (\<lambda>i. snd (setup_single env listId i None)) c))
    \<and> (\<forall>c e. fst (postChunk env p c) = Inl e \<and> \<not> isPayloadTooLargeError e \<longrightarrow>
          chunkOutcome env listId p c = ([], [e], c))
    \<and> (\<forall>c ids. fst (postChunk env p c) = Inr ids \<longrightarrow>
          chunkOutcome env listId p c = (ids, [], []))"
proof -
  have retry: "\<forall>c e. fst (postChunk env p c) = Inl e \<and> isPayloadTooLargeError e \<longrightarrow>
          chunkOutcome env listId p c =
            (retryIds env listId c,
             map fst (retryFailures env listId c),
             map snd (retryFailures env listId c))
          \<and> snd (setupMultiple_chunk env listId p c acc) =
              snd (postChunk env p c) @ concat (map (\<lambda>i. snd (setup_single env listId i None)) c)"
    by (cases acc) (simp add: chunkOutcome_def setupMultiple_chunk_eq)
  have other: "\<forall>c e. fst (postChunk env p c) = Inl e \<and> \<not> isPayloadTooLargeError e \<longrightarrow>
          chunkOutcome env listId p c = ([], [e], c)"
    by (simp add: chunkOutcome_def)
  have good: "\<forall>c ids. fst (postChunk env p c) = Inr ids \<longrightarrow>
          chunkOutcome env listId p c = (ids, [], [])"
    by (simp add: chunkOutcome_def)
  show ?thesis
    using setupMultiple_eq [OF ne P V] retry other good by blast
qed

theorem setupMultiple_failure_policy_witness:
  "fst (setupMultiple tooLargeEnv (Some ''list1'') [mailInstance, badInstance, mailInstance])
     = Inl (SetupMultipleError ''Setup multiple entities failed''
              [OtherError ''InternalServerError'' ''500''] [badInstance])
   \<and> fst (setupMultiple sampleEnv (Some ''list1'') [mailInstance, mailInstance, mailInstance])
     = Inr [JString ''id1'', JString ''id2'', JString ''id3'']"
proof -
  let ?p = "\<lparr>path = ''/rest/tutanota/mail/list1'', queryParams = [],
            headers = [(''accessToken'', ''token''), (''v'', ''46'')],
            typeModel = \<lparr>model_type = ListElement, version = ''46''\<rparr>\<rparr>"
  have ne: "[mailInstance, badInstance, mailInstance] \<noteq> []" by simp
  have P: "fst (validateAndPrepareRestRequest tooLargeEnv (inst_type (hd [mailInstance, badInstance, mailInstance]))
             (Some ''list1'') None None None) = Inr ?p"
    by (simp add: run_simps sample_simps tooLargeEnv_def)
  have V: "fst (checkListId (typeModel ?p) (Some ''list1'')) = Inr ()"
    by (simp add: checkListId_eq)
  have ne': "[mailInstance, mailInstance, mailInstance] \<noteq> []" by simp
  have P': "fst (validateAndPrepareRestRequest sampleEnv (inst_type (hd [mailInstance, mailInstance, mailInstance]))
             (Some ''list1'') None None None) = Inr ?p"
    by (simp add: run_simps sample_simps)
  have a: "fst (setupMultiple tooLargeEnv (Some ''list1'') [mailInstance, badInstance, mailInstance])
     = Inl (SetupMultipleError ''Setup multiple entities failed''
              [OtherError ''InternalServerError'' ''500''] [badInstance])"
    using setupMultiple_failure_policy [OF ne P V]
    by (simp add: setup_simps run_simps sample_simps)
  have b: "fst (setupMultiple sampleEnv (Some ''list1'') [mailInstance, mailInstance, mailInstance])
     = Inr [JString ''id1'', JString ''id2'', JString ''id3'']"
    using setupMultiple_failure_policy [OF ne' P' V]
    by (simp add: setup_simps run_simps sample_simps)
  from a b show ?thesis by simp
qed

end
